theory Spec2Isabelle
  imports Complex_Main
begin

section \<open>JavaScript numbers and string-to-number conversion\<close>

text \<open>
  The evaluator computes with JavaScript numbers. The model keeps the three special
  values apart from the finite ones; a finite value is an exact rational, so the
  rounding, overflow and underflow of IEEE doubles are outside the model (no result
  below depends on them: the concrete formulas use small integers and have integer
  results, where double arithmetic is exact, and the general results are about
  control flow). The two zeros
  of IEEE are one value here; the source only compares with \<open>=== 0\<close>, which does
  not tell them apart, and never divides by a zero.
\<close>

datatype number = Num rat | Infinity | NegInfinity | NaN

fun js_neg :: "number \<Rightarrow> number" where
  "js_neg (Num a) = Num (- a)"
| "js_neg Infinity = NegInfinity"
| "js_neg NegInfinity = Infinity"
| "js_neg NaN = NaN"

text \<open>\<open>a + b\<close> on numbers.\<close>

fun js_add :: "number \<Rightarrow> number \<Rightarrow> number" where
  "js_add NaN _ = NaN"
| "js_add _ NaN = NaN"
| "js_add (Num a) (Num b) = Num (a + b)"
| "js_add (Num a) b = b"
| "js_add a (Num b) = a"
| "js_add a b = (if a = b then a else NaN)"

text \<open>\<open>a - b\<close> on numbers.\<close>

definition js_sub :: "number \<Rightarrow> number \<Rightarrow> number" where
  "js_sub a b = js_add a (js_neg b)"

text \<open>The sign of a number that is not NaN, used by the products with an infinity.\<close>

fun js_positive :: "number \<Rightarrow> bool" where
  "js_positive (Num a) = (0 < a)"
| "js_positive Infinity = True"
| "js_positive NegInfinity = False"
| "js_positive NaN = False"

definition signed_infinity :: "bool \<Rightarrow> number" where
  "signed_infinity pos = (if pos then Infinity else NegInfinity)"

text \<open>\<open>a * b\<close> on numbers: an infinity times zero is NaN.\<close>

fun js_mul :: "number \<Rightarrow> number \<Rightarrow> number" where
  "js_mul NaN _ = NaN"
| "js_mul _ NaN = NaN"
| "js_mul (Num a) (Num b) = Num (a * b)"
| "js_mul a b =
     (if a = Num 0 \<or> b = Num 0 then NaN
      else signed_infinity (js_positive a = js_positive b))"

text \<open>
  \<open>a / b\<close> on numbers. The source divides only after \<open>value2 === 0\<close> has failed, so
  the equation for a zero divisor (taken as the positive zero) is never used by it.
\<close>

fun js_div :: "number \<Rightarrow> number \<Rightarrow> number" where
  "js_div NaN _ = NaN"
| "js_div _ NaN = NaN"
| "js_div (Num a) (Num b) =
     (if b = 0 then (if a = 0 then NaN else signed_infinity (0 < a)) else Num (a / b))"
| "js_div (Num a) b = Num 0"
| "js_div a (Num b) = signed_infinity (js_positive a = (0 \<le> b))"
| "js_div a b = NaN"

text \<open>The global \<open>isNaN\<close> on a number.\<close>

definition isNaN :: "number \<Rightarrow> bool" where
  "isNaN x = (x = NaN)"

subsection \<open>\<open>Number(token)\<close>\<close>

text \<open>
  A token is a string, or \<open>undefined\<close> when the cursor is outside the formula
  (\<open>None\<close>). A character of the model is a code unit below 256. The white space
  that the conversion trims is, among these, tab, line feed, vertical tab, form feed,
  carriage return, space and the no-break space U+00A0; a token with a code unit from
  256 on (such as the white space U+FEFF or U+2028) is outside the model.
\<close>

type_synonym TokenType = "string option"
type_synonym FormulaType = "string list"

definition isStrWhiteSpaceChar :: "char \<Rightarrow> bool" where
  "isStrWhiteSpaceChar c = (c \<in> set [CHR 0x09, CHR 0x0A, CHR 0x0B, CHR 0x0C, CHR 0x0D, CHR 0x20, CHR 0xA0])"

definition trimString :: "string \<Rightarrow> string" where
  "trimString s = rev (dropWhile isStrWhiteSpaceChar (rev (dropWhile isStrWhiteSpaceChar s)))"

definition isDecimalDigit :: "char \<Rightarrow> bool" where
  "isDecimalDigit c = (48 \<le> (of_char c :: nat) \<and> (of_char c :: nat) \<le> 57)"

text \<open>The value of a digit of base up to 16; \<open>None\<close> for any other character.\<close>

definition digitValue :: "char \<Rightarrow> nat option" where
  "digitValue c =
     (let k = (of_char c :: nat) in
      if 48 \<le> k \<and> k \<le> 57 then Some (k - 48)
      else if 97 \<le> k \<and> k \<le> 102 then Some (k - 87)
      else if 65 \<le> k \<and> k \<le> 70 then Some (k - 55)
      else None)"

definition isDigitOfBase :: "nat \<Rightarrow> char \<Rightarrow> bool" where
  "isDigitOfBase b c = (case digitValue c of None \<Rightarrow> False | Some d \<Rightarrow> d < b)"

definition digitsValue :: "nat \<Rightarrow> string \<Rightarrow> nat" where
  "digitsValue b ds = foldl (\<lambda>acc c. acc * b + (case digitValue c of None \<Rightarrow> 0 | Some d \<Rightarrow> d)) 0 ds"

text \<open>\<open>0x\<close>, \<open>0o\<close> and \<open>0b\<close> literals: a prefix and at least one digit of the base, no sign.\<close>

definition nonDecimalIntegerLiteral :: "string \<Rightarrow> number option" where
  "nonDecimalIntegerLiteral t =
     (case t of
        z # p # ds \<Rightarrow>
          (let base = (if p = CHR ''x'' \<or> p = CHR ''X'' then 16
                       else if p = CHR ''o'' \<or> p = CHR ''O'' then 8
                       else if p = CHR ''b'' \<or> p = CHR ''B'' then 2 else (0::nat))
           in if z = CHR ''0'' \<and> base \<noteq> 0 \<and> ds \<noteq> [] \<and> list_all (isDigitOfBase base) ds
              then Some (Num (of_nat (digitsValue base ds))) else None)
      | _ \<Rightarrow> None)"

text \<open>The exponent part after the mantissa: nothing, or \<open>e\<close>/\<open>E\<close>, an optional sign and digits.\<close>

definition exponentPart :: "string \<Rightarrow> int option" where
  "exponentPart r =
     (case r of
        [] \<Rightarrow> Some 0
      | c # ds \<Rightarrow>
          if c = CHR ''e'' \<or> c = CHR ''E'' then
            (let neg = (ds \<noteq> [] \<and> hd ds = CHR ''-'');
                 ds1 = (if ds \<noteq> [] \<and> (hd ds = CHR ''-'' \<or> hd ds = CHR ''+'') then tl ds else ds)
             in if ds1 \<noteq> [] \<and> list_all isDecimalDigit ds1
                then Some (if neg then - int (digitsValue 10 ds1) else int (digitsValue 10 ds1))
                else None)
          else None)"

definition scale10 :: "rat \<Rightarrow> int \<Rightarrow> rat" where
  "scale10 m e = (if 0 \<le> e then m * 10 ^ nat e else m / 10 ^ nat (- e))"

text \<open>An unsigned decimal literal: \<open>Infinity\<close>, or digits with an optional fraction and exponent.\<close>

definition strUnsignedDecimalLiteral :: "string \<Rightarrow> number" where
  "strUnsignedDecimalLiteral t =
     (if t = ''Infinity'' then Infinity
      else
        let ip = takeWhile isDecimalDigit t;
            r1 = dropWhile isDecimalDigit t;
            dot = (r1 \<noteq> [] \<and> hd r1 = CHR ''.'');
            fp = (if dot then takeWhile isDecimalDigit (tl r1) else []);
            r2 = (if dot then dropWhile isDecimalDigit (tl r1) else r1)
        in if ip = [] \<and> fp = [] then NaN
           else (case exponentPart r2 of
                   None \<Rightarrow> NaN
                 | Some e \<Rightarrow> Num (scale10 (of_nat (digitsValue 10 (ip @ fp))) (e - int (length fp)))))"

text \<open>The conversion of a string: white space trimmed, the empty string is 0.\<close>

definition StringToNumber :: "string \<Rightarrow> number" where
  "StringToNumber s =
     (let t = trimString s in
      if t = [] then Num 0
      else (case nonDecimalIntegerLiteral t of
              Some v \<Rightarrow> v
            | None \<Rightarrow>
                if hd t = CHR ''-'' then js_neg (strUnsignedDecimalLiteral (tl t))
                else if hd t = CHR ''+'' then strUnsignedDecimalLiteral (tl t)
                else strUnsignedDecimalLiteral t))"

text \<open>\<open>Number(token)\<close>: \<open>undefined\<close> converts to NaN.\<close>

definition ToNumber :: "TokenType \<Rightarrow> number" where
  "ToNumber tok = (case tok of None \<Rightarrow> NaN | Some s \<Rightarrow> StringToNumber s)"

section \<open>The collaborators of the evaluator\<close>

text \<open>
  The classes \<open>Cell\<close> and \<open>SheetMemory\<close> and the constants \<open>ErrorMessages\<close> are imported by
  FormulaEvaluator.ts from files that are not part of the sources. A cell is the record
  of what its three getters return. Everything else the evaluator takes from outside is
  a field of \<open>Env\<close>: the four error messages it uses, the label test
  \<open>Cell.isValidCellLabel\<close> and the lookup \<open>SheetMemory.getCellByLabel\<close>. Both functions
  are called on the current token, which is \<open>undefined\<close> at the end of the formula, so
  they take a \<open>TokenType\<close>. The evaluator only reads the store; the contents of the
  store at the time of a call are part of the argument \<open>env\<close> of that call.
\<close>

record Cell =
  getFormula :: FormulaType
  getValue :: number
  getError :: string

record Env =
  emptyFormula :: string
  invalidFormula :: string
  divideByZero :: string
  invalidCell :: string
  isValidCellLabel :: "TokenType \<Rightarrow> bool"
  getCellByLabel :: "TokenType \<Rightarrow> Cell"

section \<open>The class FormulaEvaluator\<close>

text \<open>The private fields of an instance (the field \<open>_sheetMemory\<close> is in \<open>Env\<close>).\<close>

record FormulaEvaluator =
  currentTokenIndex :: nat
  errorOccurred :: bool
  errorMessage :: string
  currentFormula :: FormulaType
  lastResult :: number
  result :: number

text \<open>The instance that the constructor returns: the field initialisers.\<close>

definition newFormulaEvaluator :: FormulaEvaluator where
  "newFormulaEvaluator =
     \<lparr>currentTokenIndex = 0, errorOccurred = False, errorMessage = '''',
      currentFormula = [], lastResult = Num 0, result = Num 0\<rparr>"

definition nextToken :: "FormulaEvaluator \<Rightarrow> FormulaEvaluator" where
  "nextToken s = s\<lparr>currentTokenIndex := currentTokenIndex s + 1\<rparr>"

text \<open>Reading an array outside its bounds gives \<open>undefined\<close>.\<close>

definition currentToken :: "FormulaEvaluator \<Rightarrow> TokenType" where
  "currentToken s =
     (if currentTokenIndex s < length (currentFormula s)
      then Some (currentFormula s ! currentTokenIndex s) else None)"

definition isCurrentToken :: "FormulaEvaluator \<Rightarrow> TokenType \<Rightarrow> bool" where
  "isCurrentToken s token = (if currentToken s = token then True else False)"

text \<open>The getters \<open>error\<close> and \<open>result\<close>.\<close>

definition get_error :: "FormulaEvaluator \<Rightarrow> string" where
  "get_error s = errorMessage s"

definition get_result :: "FormulaEvaluator \<Rightarrow> number" where
  "get_result s = result s"

definition isNumber :: "TokenType \<Rightarrow> bool" where
  "isNumber token = (\<not> isNaN (ToNumber token))"

definition isCellReference :: "Env \<Rightarrow> TokenType \<Rightarrow> bool" where
  "isCellReference env token = isValidCellLabel env token"

definition getCellValue :: "Env \<Rightarrow> TokenType \<Rightarrow> number \<times> string" where
  "getCellValue env token =
     (let cell = getCellByLabel env token;
          formula = getFormula cell;
          error = getError cell
      in if error \<noteq> '''' \<and> error \<noteq> emptyFormula env then (Num 0, error)
         else if length formula = 0 then (Num 0, invalidCell env)
         else (getValue cell, ''''))"

text \<open>
  The recursive descent. Each function takes the instance and returns the value with
  the updated instance. The two \<open>while\<close> loops are the functions \<open>expressionLoop\<close> and
  \<open>termLoop\<close>, whose extra argument is the local variable \<open>value\<close>. The first argument
  is fuel: every call passes one less to the calls it makes, and a call without fuel
  returns \<open>None\<close>.
\<close>

fun evaluateExpression :: "nat \<Rightarrow> Env \<Rightarrow> FormulaEvaluator \<Rightarrow> (number \<times> FormulaEvaluator) option"
and expressionLoop :: "nat \<Rightarrow> Env \<Rightarrow> number \<Rightarrow> FormulaEvaluator \<Rightarrow> (number \<times> FormulaEvaluator) option"
and evaluateTerm :: "nat \<Rightarrow> Env \<Rightarrow> FormulaEvaluator \<Rightarrow> (number \<times> FormulaEvaluator) option"
and termLoop :: "nat \<Rightarrow> Env \<Rightarrow> number \<Rightarrow> FormulaEvaluator \<Rightarrow> (number \<times> FormulaEvaluator) option"
and evaluateFactor :: "nat \<Rightarrow> Env \<Rightarrow> FormulaEvaluator \<Rightarrow> (number \<times> FormulaEvaluator) option"
where
  "evaluateExpression 0 env s = None"
| "evaluateExpression (Suc n) env s =
     (case evaluateTerm n env s of
        None \<Rightarrow> None
      | Some (v, s1) \<Rightarrow> expressionLoop n env v s1)"
| "expressionLoop 0 env v s = None"
| "expressionLoop (Suc n) env v s =
     (if currentToken s = Some ''+'' \<or> currentToken s = Some ''-'' then
        (let operator = currentToken s; s1 = nextToken s in
         case evaluateTerm n env s1 of
           None \<Rightarrow> None
         | Some (v2, s2) \<Rightarrow>
             expressionLoop n env (if operator = Some ''+'' then js_add v v2 else js_sub v v2) s2)
      else Some (v, s))"
| "evaluateTerm 0 env s = None"
| "evaluateTerm (Suc n) env s =
     (case evaluateFactor n env s of
        None \<Rightarrow> None
      | Some (v, s1) \<Rightarrow> termLoop n env v s1)"
| "termLoop 0 env v s = None"
| "termLoop (Suc n) env v s =
     (if currentToken s = Some ''*'' \<or> currentToken s = Some ''/'' then
        (let operator = currentToken s; s1 = nextToken s in
         case evaluateFactor n env s1 of
           None \<Rightarrow> None
         | Some (value2, s2) \<Rightarrow>
             if operator = Some ''*'' then termLoop n env (js_mul v value2) s2
             else if value2 = Num 0 then
               (let s3 = s2\<lparr>errorMessage := divideByZero env\<rparr>;
                    s4 = s3\<lparr>errorOccurred := True\<rparr>;
                    s5 = s4\<lparr>lastResult := Infinity\<rparr>
                in Some (lastResult s5, s5))
             else termLoop n env (js_div v value2) s2)
      else Some (v, s))"
| "evaluateFactor 0 env s = None"
| "evaluateFactor (Suc n) env s =
     (if isNumber (currentToken s) then Some (ToNumber (currentToken s), nextToken s)
      else if isCellReference env (currentToken s) then
        (let (val, error) = getCellValue env (currentToken s);
             s1 = (if error \<noteq> '''' then s\<lparr>errorMessage := error, errorOccurred := True\<rparr> else s)
         in Some (val, nextToken s1))
      else if currentToken s = Some ''('' then
        (case evaluateExpression n env (nextToken s) of
           None \<Rightarrow> None
         | Some (v, s1) \<Rightarrow>
             if isCurrentToken s1 (Some '')'') then Some (v, nextToken s1)
             else Some (v, s1\<lparr>errorOccurred := True, errorMessage := invalidFormula env\<rparr>))
      else Some (Num 0, s\<lparr>errorMessage := invalidFormula env, errorOccurred := True\<rparr>))"

text \<open>
  The method \<open>evaluate\<close>, with the fuel of the descent as an argument: the value it
  returns and the instance after the call.
\<close>

definition evaluateFuel ::
  "nat \<Rightarrow> Env \<Rightarrow> FormulaEvaluator \<Rightarrow> FormulaType \<Rightarrow> (number \<times> FormulaEvaluator) option" where
  "evaluateFuel fuel env s formula =
     (let s0 = s\<lparr>currentFormula := formula, currentTokenIndex := 0,
                 errorOccurred := False, errorMessage := ''''\<rparr>
      in if length formula = 0 then Some (Num 0, s0\<lparr>errorMessage := emptyFormula env\<rparr>)
         else (case evaluateExpression fuel env s0 of
                 None \<Rightarrow> None
               | Some (v, s1) \<Rightarrow>
                   (let s2 = s1\<lparr>result := v\<rparr>;
                        s3 = s2\<lparr>lastResult := result s2\<rparr>
                    in if currentTokenIndex s3 \<noteq> length formula \<and> \<not> errorOccurred s3
                       then Some (Num 0, s3\<lparr>errorMessage := invalidFormula env\<rparr>)
                       else Some (result s3, s3))))"

text \<open>
  \<open>evaluate\<close> itself: the descent gets three units of fuel for each token and three
  more, which is always enough (\<open>evaluate_returns\<close> and \<open>evaluateFuel_enough\<close> below).
  The call stack of the host is not part of this function: the frames that the
  descent needs are counted by \<open>D_evaluate\<close> below.
\<close>

definition evaluate ::
  "Env \<Rightarrow> FormulaEvaluator \<Rightarrow> FormulaType \<Rightarrow> (number \<times> FormulaEvaluator) option" where
  "evaluate env s formula = evaluateFuel (3 * length formula + 3) env s formula"

text \<open>
  What a caller observes of a call: the value returned, and afterwards the getters
  \<open>result\<close> and \<open>error\<close>, in this order.
\<close>

definition returned :: "(number \<times> FormulaEvaluator) option \<Rightarrow> number option" where
  "returned r = map_option fst r"

definition outcome :: "(number \<times> FormulaEvaluator) option \<Rightarrow> (number \<times> number \<times> string) option" where
  "outcome r = (case r of None \<Rightarrow> None | Some (v, s) \<Rightarrow> Some (v, get_result s, get_error s))"

text \<open>The next call of \<open>evaluate\<close> on the instance that an earlier call has left.\<close>

definition thenEvaluate ::
  "Env \<Rightarrow> (number \<times> FormulaEvaluator) option \<Rightarrow> FormulaType \<Rightarrow> (number \<times> FormulaEvaluator) option" where
  "thenEvaluate env r formula = (case r of None \<Rightarrow> None | Some (v, s) \<Rightarrow> evaluate env s formula)"

section \<open>Steps and call depth\<close>

text \<open>
  The instance as \<open>evaluate\<close> sets it up before the descent: the four assignments at
  its start.
\<close>

definition startOfCall :: "FormulaEvaluator \<Rightarrow> FormulaType \<Rightarrow> FormulaEvaluator" where
  "startOfCall s formula =
     s\<lparr>currentFormula := formula, currentTokenIndex := 0, errorOccurred := False, errorMessage := ''''\<rparr>"

text \<open>
  The number of steps of a run: one for every call of \<open>evaluateExpression\<close>,
  \<open>evaluateTerm\<close> and \<open>evaluateFactor\<close> and one for every test of a loop condition.
  Each function follows the calls of the function it counts, on the instances that
  these calls produce; \<open>T_evaluate\<close> adds the call of \<open>evaluate\<close> itself. (The
  fuel of the descent is no measure of steps: it is handed on to every call that a
  call makes, so it only limits how deep the calls and loop iterations nest.)
\<close>

fun T_evaluateExpression :: "nat \<Rightarrow> Env \<Rightarrow> FormulaEvaluator \<Rightarrow> nat"
and T_expressionLoop :: "nat \<Rightarrow> Env \<Rightarrow> FormulaEvaluator \<Rightarrow> nat"
and T_evaluateTerm :: "nat \<Rightarrow> Env \<Rightarrow> FormulaEvaluator \<Rightarrow> nat"
and T_termLoop :: "nat \<Rightarrow> Env \<Rightarrow> FormulaEvaluator \<Rightarrow> nat"
and T_evaluateFactor :: "nat \<Rightarrow> Env \<Rightarrow> FormulaEvaluator \<Rightarrow> nat"
where
  "T_evaluateExpression 0 env s = 0"
| "T_evaluateExpression (Suc n) env s =
     1 + T_evaluateTerm n env s +
       (case evaluateTerm n env s of None \<Rightarrow> 0 | Some (v, s1) \<Rightarrow> T_expressionLoop n env s1)"
| "T_expressionLoop 0 env s = 0"
| "T_expressionLoop (Suc n) env s =
     1 + (if currentToken s = Some ''+'' \<or> currentToken s = Some ''-'' then
            T_evaluateTerm n env (nextToken s) +
              (case evaluateTerm n env (nextToken s) of
                 None \<Rightarrow> 0
               | Some (v2, s2) \<Rightarrow> T_expressionLoop n env s2)
          else 0)"
| "T_evaluateTerm 0 env s = 0"
| "T_evaluateTerm (Suc n) env s =
     1 + T_evaluateFactor n env s +
       (case evaluateFactor n env s of None \<Rightarrow> 0 | Some (v, s1) \<Rightarrow> T_termLoop n env s1)"
| "T_termLoop 0 env s = 0"
| "T_termLoop (Suc n) env s =
     1 + (if currentToken s = Some ''*'' \<or> currentToken s = Some ''/'' then
            T_evaluateFactor n env (nextToken s) +
              (case evaluateFactor n env (nextToken s) of
                 None \<Rightarrow> 0
               | Some (value2, s2) \<Rightarrow>
                   if currentToken s = Some ''*'' then T_termLoop n env s2
                   else if value2 = Num 0 then 0
                   else T_termLoop n env s2)
          else 0)"
| "T_evaluateFactor 0 env s = 0"
| "T_evaluateFactor (Suc n) env s =
     1 + (if isNumber (currentToken s) then 0
          else if isCellReference env (currentToken s) then 0
          else if currentToken s = Some ''('' then T_evaluateExpression n env (nextToken s)
          else 0)"

definition T_evaluate :: "Env \<Rightarrow> FormulaEvaluator \<Rightarrow> FormulaType \<Rightarrow> nat" where
  "T_evaluate env s formula =
     1 + (if length formula = 0 then 0
          else T_evaluateExpression (3 * length formula + 3) env
                 (s\<lparr>currentFormula := formula, currentTokenIndex := 0,
                    errorOccurred := False, errorMessage := ''''\<rparr>))"

text \<open>
  The deepest nesting of calls of a run, in frames of \<open>evaluateExpression\<close>,
  \<open>evaluateTerm\<close> and \<open>evaluateFactor\<close>: a call adds a frame to the deepest of the
  calls it makes, the iterations of a loop run in the frame of their method.
  \<open>D_evaluate\<close> adds the frame of \<open>evaluate\<close>.
\<close>

fun D_evaluateExpression :: "nat \<Rightarrow> Env \<Rightarrow> FormulaEvaluator \<Rightarrow> nat"
and D_expressionLoop :: "nat \<Rightarrow> Env \<Rightarrow> FormulaEvaluator \<Rightarrow> nat"
and D_evaluateTerm :: "nat \<Rightarrow> Env \<Rightarrow> FormulaEvaluator \<Rightarrow> nat"
and D_termLoop :: "nat \<Rightarrow> Env \<Rightarrow> FormulaEvaluator \<Rightarrow> nat"
and D_evaluateFactor :: "nat \<Rightarrow> Env \<Rightarrow> FormulaEvaluator \<Rightarrow> nat"
where
  "D_evaluateExpression 0 env s = 0"
| "D_evaluateExpression (Suc n) env s =
     1 + max (D_evaluateTerm n env s)
             (case evaluateTerm n env s of None \<Rightarrow> 0 | Some (v, s1) \<Rightarrow> D_expressionLoop n env s1)"
| "D_expressionLoop 0 env s = 0"
| "D_expressionLoop (Suc n) env s =
     (if currentToken s = Some ''+'' \<or> currentToken s = Some ''-'' then
        max (D_evaluateTerm n env (nextToken s))
            (case evaluateTerm n env (nextToken s) of
               None \<Rightarrow> 0
             | Some (v2, s2) \<Rightarrow> D_expressionLoop n env s2)
      else 0)"
| "D_evaluateTerm 0 env s = 0"
| "D_evaluateTerm (Suc n) env s =
     1 + max (D_evaluateFactor n env s)
             (case evaluateFactor n env s of None \<Rightarrow> 0 | Some (v, s1) \<Rightarrow> D_termLoop n env s1)"
| "D_termLoop 0 env s = 0"
| "D_termLoop (Suc n) env s =
     (if currentToken s = Some ''*'' \<or> currentToken s = Some ''/'' then
        max (D_evaluateFactor n env (nextToken s))
            (case evaluateFactor n env (nextToken s) of
               None \<Rightarrow> 0
             | Some (value2, s2) \<Rightarrow>
                 if currentToken s = Some ''*'' then D_termLoop n env s2
                 else if value2 = Num 0 then 0
                 else D_termLoop n env s2)
      else 0)"
| "D_evaluateFactor 0 env s = 0"
| "D_evaluateFactor (Suc n) env s =
     1 + (if isNumber (currentToken s) then 0
          else if isCellReference env (currentToken s) then 0
          else if currentToken s = Some ''('' then D_evaluateExpression n env (nextToken s)
          else 0)"

definition D_evaluate :: "Env \<Rightarrow> FormulaEvaluator \<Rightarrow> FormulaType \<Rightarrow> nat" where
  "D_evaluate env s formula =
     1 + (if length formula = 0 then 0
          else D_evaluateExpression (3 * length formula + 3) env
                 (s\<lparr>currentFormula := formula, currentTokenIndex := 0,
                    errorOccurred := False, errorMessage := ''''\<rparr>))"

text \<open>The number of tokens \<open>(\<close> from the cursor to the end of the formula.\<close>

definition opens :: "FormulaEvaluator \<Rightarrow> nat" where
  "opens s = length (filter (\<lambda>t. t = ''('') (drop (currentTokenIndex s) (currentFormula s)))"

section \<open>Auxiliary notions\<close>

text \<open>The number of tokens from the cursor to the end of the formula.\<close>

definition remaining :: "FormulaEvaluator \<Rightarrow> nat" where
  "remaining s = length (currentFormula s) - currentTokenIndex s"

text \<open>
  What every step of the descent keeps: the formula and the field \<open>_result\<close> are not
  touched, the cursor does not move back, the error flag is not cleared, and a message
  is only ever recorded together with the flag.
\<close>

definition descends :: "FormulaEvaluator \<Rightarrow> FormulaEvaluator \<Rightarrow> bool" where
  "descends s s' =
     (currentFormula s' = currentFormula s \<and> result s' = result s \<and>
      currentTokenIndex s \<le> currentTokenIndex s' \<and>
      (errorOccurred s \<longrightarrow> errorOccurred s') \<and>
      (errorMessage s = '''' \<or> errorOccurred s \<longrightarrow> errorMessage s' = '''' \<or> errorOccurred s'))"

text \<open>
  Two instances that differ at most in the fields \<open>_lastResult\<close> and \<open>_result\<close>.
\<close>

definition sameCall :: "FormulaEvaluator \<Rightarrow> FormulaEvaluator \<Rightarrow> bool" where
  "sameCall s t =
     (currentTokenIndex s = currentTokenIndex t \<and> errorOccurred s = errorOccurred t \<and>
      errorMessage s = errorMessage t \<and> currentFormula s = currentFormula t)"

text \<open>
  A concrete environment for the closed examples: the four messages under the names
  that the specification gives them, and a sheet of four cells. \<open>A1\<close> holds the value
  5, \<open>B1\<close> has no formula, \<open>C1\<close> and \<open>D1\<close> carry two different errors.
\<close>

definition sampleCells :: "TokenType \<Rightarrow> Cell" where
  "sampleCells t =
     (if t = Some ''A1'' then \<lparr>getFormula = [''5''], getValue = Num 5, getError = ''''\<rparr>
      else if t = Some ''C1'' then
        \<lparr>getFormula = [''1'', ''/'', ''0''], getValue = Infinity, getError = ''DivideByZero''\<rparr>
      else if t = Some ''D1'' then
        \<lparr>getFormula = [''(''], getValue = Num 0, getError = ''InvalidFormula''\<rparr>
      else \<lparr>getFormula = [], getValue = Num 0, getError = ''''\<rparr>)"

definition sampleEnv :: Env where
  "sampleEnv =
     \<lparr>emptyFormula = ''EmptyFormula'', invalidFormula = ''InvalidFormula'',
      divideByZero = ''DivideByZero'', invalidCell = ''InvalidCell'',
      isValidCellLabel = (\<lambda>t. t \<in> set [Some ''A1'', Some ''B1'', Some ''C1'', Some ''D1'']),
      getCellByLabel = sampleCells\<rparr>"

section \<open>Properties of the descent\<close>

lemma descends_trans: "descends s t \<Longrightarrow> descends t u \<Longrightarrow> descends s u"
  by (auto simp: descends_def)

lemma descent_invariant:
  "(\<forall>env s v s'. evaluateExpression n env s = Some (v, s') \<longrightarrow> descends s s') \<and>
   (\<forall>env v0 s v s'. expressionLoop n env v0 s = Some (v, s') \<longrightarrow> descends s s') \<and>
   (\<forall>env s v s'. evaluateTerm n env s = Some (v, s') \<longrightarrow> descends s s') \<and>
   (\<forall>env v0 s v s'. termLoop n env v0 s = Some (v, s') \<longrightarrow> descends s s') \<and>
   (\<forall>env s v s'. evaluateFactor n env s = Some (v, s') \<longrightarrow> descends s s')"
proof (induction n)
  case 0
  show ?case by simp
next
  case (Suc n)
  note IH_E = Suc.IH [THEN conjunct1, rule_format]
    and IH_EL = Suc.IH [THEN conjunct2, THEN conjunct1, rule_format]
    and IH_T = Suc.IH [THEN conjunct2, THEN conjunct2, THEN conjunct1, rule_format]
    and IH_TL = Suc.IH [THEN conjunct2, THEN conjunct2, THEN conjunct2, THEN conjunct1, rule_format]
    and IH_F = Suc.IH [THEN conjunct2, THEN conjunct2, THEN conjunct2, THEN conjunct2, rule_format]
  have E: "descends s s'" if "evaluateExpression (Suc n) env s = Some (v, s')" for env s v s'
    using that by (auto split: option.splits dest!: IH_T IH_EL elim: descends_trans)
  have EL: "descends s s'" if "expressionLoop (Suc n) env v0 s = Some (v, s')" for env v0 s v s'
    using that
    by (auto simp: Let_def descends_def nextToken_def split: option.splits if_splits
        dest!: IH_T IH_EL)
  have T: "descends s s'" if "evaluateTerm (Suc n) env s = Some (v, s')" for env s v s'
    using that by (auto split: option.splits dest!: IH_F IH_TL elim: descends_trans)
  have TL: "descends s s'" if "termLoop (Suc n) env v0 s = Some (v, s')" for env v0 s v s'
    using that
    by (auto simp: Let_def descends_def nextToken_def split: option.splits if_splits
        dest!: IH_F IH_TL)
  have F: "descends s s'" if "evaluateFactor (Suc n) env s = Some (v, s')" for env s v s'
    using that
    by (auto simp: Let_def descends_def nextToken_def split: option.splits if_splits prod.splits
        dest!: IH_E)
  from E EL T TL F show ?case by blast
qed


lemmas descent =
  descent_invariant [THEN conjunct1, rule_format]
  descent_invariant [THEN conjunct2, THEN conjunct1, rule_format]
  descent_invariant [THEN conjunct2, THEN conjunct2, THEN conjunct1, rule_format]
  descent_invariant [THEN conjunct2, THEN conjunct2, THEN conjunct2, THEN conjunct1, rule_format]
  descent_invariant [THEN conjunct2, THEN conjunct2, THEN conjunct2, THEN conjunct2, rule_format]

lemma descends_remaining: "descends s s' \<Longrightarrow> remaining s' \<le> remaining s"
  by (auto simp: descends_def remaining_def)

lemma remaining_nextToken:
  "currentToken s = Some t \<Longrightarrow> Suc (remaining (nextToken s)) = remaining s"
  by (auto simp: currentToken_def remaining_def nextToken_def split: if_splits)

lemma fuel_suffices:
  "(\<forall>env s. 3 * remaining s + 3 \<le> n \<longrightarrow> evaluateExpression n env s \<noteq> None) \<and>
   (\<forall>env v0 s. 3 * remaining s + 2 \<le> n \<longrightarrow> expressionLoop n env v0 s \<noteq> None) \<and>
   (\<forall>env s. 3 * remaining s + 2 \<le> n \<longrightarrow> evaluateTerm n env s \<noteq> None) \<and>
   (\<forall>env v0 s. 3 * remaining s + 1 \<le> n \<longrightarrow> termLoop n env v0 s \<noteq> None) \<and>
   (\<forall>env s. 3 * remaining s + 1 \<le> n \<longrightarrow> evaluateFactor n env s \<noteq> None)"
proof (induction n)
  case 0
  show ?case by simp
next
  case (Suc n)
  note IH_E = Suc.IH [THEN conjunct1, rule_format]
    and IH_EL = Suc.IH [THEN conjunct2, THEN conjunct1, rule_format]
    and IH_T = Suc.IH [THEN conjunct2, THEN conjunct2, THEN conjunct1, rule_format]
    and IH_TL = Suc.IH [THEN conjunct2, THEN conjunct2, THEN conjunct2, THEN conjunct1, rule_format]
    and IH_F = Suc.IH [THEN conjunct2, THEN conjunct2, THEN conjunct2, THEN conjunct2, rule_format]
  have E: "evaluateExpression (Suc n) env s \<noteq> None" if b: "3 * remaining s + 3 \<le> Suc n" for env s
  proof -
    from b obtain v s1 where t: "evaluateTerm n env s = Some (v, s1)"
      using IH_T [of s env] by auto
    from descent(3) [OF t] have "remaining s1 \<le> remaining s" by (rule descends_remaining)
    with b have "expressionLoop n env v s1 \<noteq> None" by (intro IH_EL) simp
    with t show ?thesis by simp
  qed
  have EL: "expressionLoop (Suc n) env v0 s \<noteq> None" if b: "3 * remaining s + 2 \<le> Suc n" for env v0 s
  proof (cases "currentToken s = Some ''+'' \<or> currentToken s = Some ''-''")
    case False
    then show ?thesis by simp
  next
    case True
    then have r: "Suc (remaining (nextToken s)) = remaining s"
      by (auto dest: remaining_nextToken)
    with b obtain v s2 where t: "evaluateTerm n env (nextToken s) = Some (v, s2)"
      using IH_T [of "nextToken s" env] by auto
    from descent(3) [OF t] have "remaining s2 \<le> remaining (nextToken s)"
      by (rule descends_remaining)
    with b r have "expressionLoop n env w s2 \<noteq> None" for w by (intro IH_EL) simp
    with t True show ?thesis by (simp add: Let_def)
  qed
  have T: "evaluateTerm (Suc n) env s \<noteq> None" if b: "3 * remaining s + 2 \<le> Suc n" for env s
  proof -
    from b obtain v s1 where t: "evaluateFactor n env s = Some (v, s1)"
      using IH_F [of s env] by auto
    from descent(5) [OF t] have "remaining s1 \<le> remaining s" by (rule descends_remaining)
    with b have "termLoop n env v s1 \<noteq> None" by (intro IH_TL) simp
    with t show ?thesis by simp
  qed
  have TL: "termLoop (Suc n) env v0 s \<noteq> None" if b: "3 * remaining s + 1 \<le> Suc n" for env v0 s
  proof (cases "currentToken s = Some ''*'' \<or> currentToken s = Some ''/''")
    case False
    then show ?thesis by simp
  next
    case True
    then have r: "Suc (remaining (nextToken s)) = remaining s"
      by (auto dest: remaining_nextToken)
    with b obtain v s2 where t: "evaluateFactor n env (nextToken s) = Some (v, s2)"
      using IH_F [of "nextToken s" env] by auto
    from descent(5) [OF t] have "remaining s2 \<le> remaining (nextToken s)"
      by (rule descends_remaining)
    with b r have "termLoop n env w s2 \<noteq> None" for w by (intro IH_TL) simp
    with t True show ?thesis by (simp add: Let_def)
  qed
  have F: "evaluateFactor (Suc n) env s \<noteq> None" if b: "3 * remaining s + 1 \<le> Suc n" for env s
  proof (cases "currentToken s = Some ''(''")
    case False
    then show ?thesis by (simp add: Let_def split: prod.splits)
  next
    case True
    then have r: "Suc (remaining (nextToken s)) = remaining s"
      by (rule remaining_nextToken)
    with b have "evaluateExpression n env (nextToken s) \<noteq> None" by (intro IH_E) simp
    then show ?thesis by (auto simp: Let_def split: prod.splits)
  qed
  from E EL T TL F show ?case by blast
qed

lemma fuel_mono:
  "(\<forall>env s r m. evaluateExpression n env s = Some r \<longrightarrow> n \<le> m \<longrightarrow> evaluateExpression m env s = Some r) \<and>
   (\<forall>env v0 s r m. expressionLoop n env v0 s = Some r \<longrightarrow> n \<le> m \<longrightarrow> expressionLoop m env v0 s = Some r) \<and>
   (\<forall>env s r m. evaluateTerm n env s = Some r \<longrightarrow> n \<le> m \<longrightarrow> evaluateTerm m env s = Some r) \<and>
   (\<forall>env v0 s r m. termLoop n env v0 s = Some r \<longrightarrow> n \<le> m \<longrightarrow> termLoop m env v0 s = Some r) \<and>
   (\<forall>env s r m. evaluateFactor n env s = Some r \<longrightarrow> n \<le> m \<longrightarrow> evaluateFactor m env s = Some r)"
proof (induction n)
  case 0
  show ?case by simp
next
  case (Suc n)
  note IH_E = Suc.IH [THEN conjunct1, rule_format]
    and IH_EL = Suc.IH [THEN conjunct2, THEN conjunct1, rule_format]
    and IH_T = Suc.IH [THEN conjunct2, THEN conjunct2, THEN conjunct1, rule_format]
    and IH_TL = Suc.IH [THEN conjunct2, THEN conjunct2, THEN conjunct2, THEN conjunct1, rule_format]
    and IH_F = Suc.IH [THEN conjunct2, THEN conjunct2, THEN conjunct2, THEN conjunct2, rule_format]
  have E: "evaluateExpression m env s = Some r"
    if "evaluateExpression (Suc n) env s = Some r" "Suc n \<le> m" for env s r m
  proof -
    from that(2) obtain k where m: "m = Suc k" and k: "n \<le> k" by (cases m) auto
    from that(1) obtain v s1 where t: "evaluateTerm n env s = Some (v, s1)"
      and l: "expressionLoop n env v s1 = Some r"
      by (auto split: option.splits)
    show ?thesis unfolding m by (simp add: IH_T [OF t k] IH_EL [OF l k])
  qed
  have EL: "expressionLoop m env v0 s = Some r"
    if "expressionLoop (Suc n) env v0 s = Some r" "Suc n \<le> m" for env v0 s r m
  proof -
    from that(2) obtain k where m: "m = Suc k" and k: "n \<le> k" by (cases m) auto
    show ?thesis
    proof (cases "currentToken s = Some ''+'' \<or> currentToken s = Some ''-''")
      case False
      with that(1) show ?thesis unfolding m by simp
    next
      case True
      with that(1) obtain v2 s2 where t: "evaluateTerm n env (nextToken s) = Some (v2, s2)"
        by (auto simp: Let_def split: option.splits)
      from that(1) True t show ?thesis unfolding m
        by (auto simp: Let_def IH_T [OF t k] intro: IH_EL [OF _ k])
    qed
  qed
  have T: "evaluateTerm m env s = Some r"
    if "evaluateTerm (Suc n) env s = Some r" "Suc n \<le> m" for env s r m
  proof -
    from that(2) obtain k where m: "m = Suc k" and k: "n \<le> k" by (cases m) auto
    from that(1) obtain v s1 where t: "evaluateFactor n env s = Some (v, s1)"
      and l: "termLoop n env v s1 = Some r"
      by (auto split: option.splits)
    show ?thesis unfolding m by (simp add: IH_F [OF t k] IH_TL [OF l k])
  qed
  have TL: "termLoop m env v0 s = Some r"
    if "termLoop (Suc n) env v0 s = Some r" "Suc n \<le> m" for env v0 s r m
  proof -
    from that(2) obtain k where m: "m = Suc k" and k: "n \<le> k" by (cases m) auto
    show ?thesis
    proof (cases "currentToken s = Some ''*'' \<or> currentToken s = Some ''/''")
      case False
      with that(1) show ?thesis unfolding m by simp
    next
      case True
      with that(1) obtain v2 s2 where t: "evaluateFactor n env (nextToken s) = Some (v2, s2)"
        by (auto simp: Let_def split: option.splits)
      from that(1) True t show ?thesis unfolding m
        by (auto simp: Let_def IH_F [OF t k] split: if_splits intro: IH_TL [OF _ k])
    qed
  qed
  have F: "evaluateFactor m env s = Some r"
    if "evaluateFactor (Suc n) env s = Some r" "Suc n \<le> m" for env s r m
  proof -
    from that(2) obtain k where m: "m = Suc k" and k: "n \<le> k" by (cases m) auto
    show ?thesis
    proof (cases "isNumber (currentToken s) \<or> isCellReference env (currentToken s) \<or>
        currentToken s \<noteq> Some ''(''")
      case True
      with that(1) show ?thesis unfolding m by auto
    next
      case False
      then have c: "currentToken s = Some ''(''" by simp
      from False have a: "\<not> isNumber (Some ''('')" and b: "\<not> isCellReference env (Some ''('')"
        by (simp_all add: c)
      from that(1) obtain v s1 where t: "evaluateExpression n env (nextToken s) = Some (v, s1)"
        by (auto simp: a b c split: option.splits)
      from that(1) show ?thesis unfolding m
        by (simp add: a b c t IH_E [OF t k])
    qed
  qed
  from E EL T TL F show ?case by blast
qed

lemma evaluateFuel_enough:
  assumes "3 * length f + 3 \<le> fuel"
  shows "evaluateFuel fuel env st f = evaluate env st f"
proof (cases "f = []")
  case True
  then show ?thesis by (simp add: evaluate_def evaluateFuel_def)
next
  case False
  let ?s0 = "st\<lparr>currentFormula := f, currentTokenIndex := 0, errorOccurred := False, errorMessage := ''''\<rparr>"
  have "remaining ?s0 = length f" by (simp add: remaining_def)
  then have "evaluateExpression (3 * length f + 3) env ?s0 \<noteq> None"
    using fuel_suffices [of "3 * length f + 3"] by simp
  then obtain r where r: "evaluateExpression (3 * length f + 3) env ?s0 = Some r" by auto
  from fuel_mono [THEN conjunct1, rule_format, OF r assms]
  have "evaluateExpression fuel env ?s0 = Some r" .
  with r show ?thesis by (simp add: evaluate_def evaluateFuel_def Let_def)
qed

lemma evaluate_returns: "\<exists>v s'. evaluate env st f = Some (v, s')"
proof (cases "f = []")
  case True
  then show ?thesis by (simp add: evaluate_def evaluateFuel_def)
next
  case False
  let ?s0 = "st\<lparr>currentFormula := f, currentTokenIndex := 0, errorOccurred := False, errorMessage := ''''\<rparr>"
  have "remaining ?s0 = length f" by (simp add: remaining_def)
  then have "evaluateExpression (3 * length f + 3) env ?s0 \<noteq> None"
    using fuel_suffices [of "3 * length f + 3"] by simp
  then obtain v s1 where "evaluateExpression (3 * length f + 3) env ?s0 = Some (v, s1)" by auto
  with False show ?thesis by (simp add: evaluate_def evaluateFuel_def Let_def)
qed

lemma expressionLoop_advances:
  assumes "currentToken s = Some ''+'' \<or> currentToken s = Some ''-''"
    and "expressionLoop n env v0 s = Some (v, s')"
  shows "currentTokenIndex s < currentTokenIndex s'"
proof (cases n)
  case 0
  with assms show ?thesis by simp
next
  case (Suc k)
  with assms obtain v2 s2 where t: "evaluateTerm k env (nextToken s) = Some (v2, s2)"
    and l: "expressionLoop k env (if currentToken s = Some ''+'' then js_add v0 v2 else js_sub v0 v2) s2 =
      Some (v, s')"
    by (auto simp: Let_def split: option.splits)
  from descent(3) [OF t] descent(2) [OF l] show ?thesis
    by (simp add: descends_def nextToken_def)
qed

lemma termLoop_advances:
  assumes "currentToken s = Some ''*'' \<or> currentToken s = Some ''/''"
    and "termLoop n env v0 s = Some (v, s')"
  shows "currentTokenIndex s < currentTokenIndex s'"
proof (cases n)
  case 0
  with assms show ?thesis by simp
next
  case (Suc k)
  with assms obtain v2 s2 where t: "evaluateFactor k env (nextToken s) = Some (v2, s2)"
    by (auto simp: Let_def split: option.splits)
  from descent(5) [OF t] have a: "currentTokenIndex s < currentTokenIndex s2"
    by (simp add: descends_def nextToken_def)
  from assms Suc t have "currentTokenIndex s2 \<le> currentTokenIndex s'"
    by (auto simp: Let_def descends_def split: if_splits dest!: descent(4))
  with a show ?thesis by simp
qed

subsection \<open>The fields that a call reads\<close>

lemma sameCall_token: "sameCall s t \<Longrightarrow> currentToken s = currentToken t"
  by (simp add: sameCall_def currentToken_def)

lemma sameCall_next: "sameCall s t \<Longrightarrow> sameCall (nextToken s) (nextToken t)"
  by (simp add: sameCall_def nextToken_def)

lemma sameCall_descent:
  "(\<forall>env s t v s'. sameCall s t \<longrightarrow> evaluateExpression n env s = Some (v, s') \<longrightarrow>
      (\<exists>t'. evaluateExpression n env t = Some (v, t') \<and> sameCall s' t')) \<and>
   (\<forall>env v0 s t v s'. sameCall s t \<longrightarrow> expressionLoop n env v0 s = Some (v, s') \<longrightarrow>
      (\<exists>t'. expressionLoop n env v0 t = Some (v, t') \<and> sameCall s' t')) \<and>
   (\<forall>env s t v s'. sameCall s t \<longrightarrow> evaluateTerm n env s = Some (v, s') \<longrightarrow>
      (\<exists>t'. evaluateTerm n env t = Some (v, t') \<and> sameCall s' t')) \<and>
   (\<forall>env v0 s t v s'. sameCall s t \<longrightarrow> termLoop n env v0 s = Some (v, s') \<longrightarrow>
      (\<exists>t'. termLoop n env v0 t = Some (v, t') \<and> sameCall s' t')) \<and>
   (\<forall>env s t v s'. sameCall s t \<longrightarrow> evaluateFactor n env s = Some (v, s') \<longrightarrow>
      (\<exists>t'. evaluateFactor n env t = Some (v, t') \<and> sameCall s' t'))"
proof (induction n)
  case 0
  show ?case by simp
next
  case (Suc n)
  note IH_E = Suc.IH [THEN conjunct1, rule_format]
    and IH_EL = Suc.IH [THEN conjunct2, THEN conjunct1, rule_format]
    and IH_T = Suc.IH [THEN conjunct2, THEN conjunct2, THEN conjunct1, rule_format]
    and IH_TL = Suc.IH [THEN conjunct2, THEN conjunct2, THEN conjunct2, THEN conjunct1, rule_format]
    and IH_F = Suc.IH [THEN conjunct2, THEN conjunct2, THEN conjunct2, THEN conjunct2, rule_format]
  have E: "\<exists>t'. evaluateExpression (Suc n) env t = Some (v, t') \<and> sameCall s' t'"
    if c: "sameCall s t" and r: "evaluateExpression (Suc n) env s = Some (v, s')" for env s t v s'
  proof -
    from r obtain v1 s1 where a: "evaluateTerm n env s = Some (v1, s1)"
      and b: "expressionLoop n env v1 s1 = Some (v, s')"
      by (auto split: option.splits)
    from IH_T [OF c a] obtain t1 where a': "evaluateTerm n env t = Some (v1, t1)"
      and c1: "sameCall s1 t1" by blast
    from IH_EL [OF c1 b] a' show ?thesis by simp
  qed
  have EL: "\<exists>t'. expressionLoop (Suc n) env v0 t = Some (v, t') \<and> sameCall s' t'"
    if c: "sameCall s t" and r: "expressionLoop (Suc n) env v0 s = Some (v, s')" for env v0 s t v s'
  proof (cases "currentToken s = Some ''+'' \<or> currentToken s = Some ''-''")
    case False
    with r c sameCall_token [OF c] show ?thesis by auto
  next
    case True
    with r obtain v2 s2 where a: "evaluateTerm n env (nextToken s) = Some (v2, s2)"
      and b: "expressionLoop n env (if currentToken s = Some ''+'' then js_add v0 v2 else js_sub v0 v2) s2 =
        Some (v, s')"
      by (auto simp: Let_def split: option.splits)
    from IH_T [OF sameCall_next [OF c] a] obtain t2
      where a': "evaluateTerm n env (nextToken t) = Some (v2, t2)" and c2: "sameCall s2 t2" by blast
    from IH_EL [OF c2 b] a' True sameCall_token [OF c] show ?thesis by (simp add: Let_def)
  qed
  have T: "\<exists>t'. evaluateTerm (Suc n) env t = Some (v, t') \<and> sameCall s' t'"
    if c: "sameCall s t" and r: "evaluateTerm (Suc n) env s = Some (v, s')" for env s t v s'
  proof -
    from r obtain v1 s1 where a: "evaluateFactor n env s = Some (v1, s1)"
      and b: "termLoop n env v1 s1 = Some (v, s')"
      by (auto split: option.splits)
    from IH_F [OF c a] obtain t1 where a': "evaluateFactor n env t = Some (v1, t1)"
      and c1: "sameCall s1 t1" by blast
    from IH_TL [OF c1 b] a' show ?thesis by simp
  qed
  have TL: "\<exists>t'. termLoop (Suc n) env v0 t = Some (v, t') \<and> sameCall s' t'"
    if c: "sameCall s t" and r: "termLoop (Suc n) env v0 s = Some (v, s')" for env v0 s t v s'
  proof (cases "currentToken s = Some ''*'' \<or> currentToken s = Some ''/''")
    case False
    with r c sameCall_token [OF c] show ?thesis by auto
  next
    case True
    with r obtain v2 s2 where a: "evaluateFactor n env (nextToken s) = Some (v2, s2)"
      by (auto simp: Let_def split: option.splits)
    from IH_F [OF sameCall_next [OF c] a] obtain t2
      where a': "evaluateFactor n env (nextToken t) = Some (v2, t2)" and c2: "sameCall s2 t2" by blast
    show ?thesis
    proof (cases "currentToken s = Some ''/'' \<and> v2 = Num 0")
      case True
      with r a a' c2 sameCall_token [OF c] show ?thesis
        by (auto simp: Let_def sameCall_def)
    next
      case False
      with r a \<open>currentToken s = Some ''*'' \<or> currentToken s = Some ''/''\<close>
      have b: "termLoop n env (if currentToken s = Some ''*'' then js_mul v0 v2 else js_div v0 v2) s2 =
          Some (v, s')"
        by (auto simp: Let_def split: if_splits)
      from IH_TL [OF c2 b] a' False \<open>currentToken s = Some ''*'' \<or> currentToken s = Some ''/''\<close>
        sameCall_token [OF c]
      show ?thesis by (auto simp: Let_def)
    qed
  qed
  have F: "\<exists>t'. evaluateFactor (Suc n) env t = Some (v, t') \<and> sameCall s' t'"
    if c: "sameCall s t" and r: "evaluateFactor (Suc n) env s = Some (v, s')" for env s t v s'
  proof (cases "isNumber (currentToken s) \<or> isCellReference env (currentToken s) \<or>
        currentToken s \<noteq> Some ''(''")
    case True
    with r c sameCall_token [OF c] show ?thesis
      by (auto simp: Let_def sameCall_def nextToken_def split: prod.splits if_splits)
  next
    case False
    then have p: "currentToken s = Some ''(''" by simp
    from False have q: "\<not> isNumber (Some ''('')" "\<not> isCellReference env (Some ''('')"
      by (simp_all add: p)
    from r obtain v1 s1 where a: "evaluateExpression n env (nextToken s) = Some (v1, s1)"
      by (auto simp: p q split: option.splits)
    from IH_E [OF sameCall_next [OF c] a] obtain t1
      where a': "evaluateExpression n env (nextToken t) = Some (v1, t1)" and c1: "sameCall s1 t1"
      by blast
    from sameCall_token [OF c] p have pt: "currentToken t = Some ''(''" by simp
    from sameCall_token [OF c1] have k: "isCurrentToken t1 x = isCurrentToken s1 x" for x
      by (simp add: isCurrentToken_def)
    from r a have r': "(if isCurrentToken s1 (Some '')'') then Some (v1, nextToken s1)
        else Some (v1, s1\<lparr>errorOccurred := True, errorMessage := invalidFormula env\<rparr>)) = Some (v, s')"
      by (simp add: p q)
    have g: "evaluateFactor (Suc n) env t = (if isCurrentToken s1 (Some '')'') then Some (v1, nextToken t1)
        else Some (v1, t1\<lparr>errorOccurred := True, errorMessage := invalidFormula env\<rparr>))"
      by (simp add: pt q a' k)
    from c1 have "sameCall (s1\<lparr>errorOccurred := True, errorMessage := m\<rparr>)
        (t1\<lparr>errorOccurred := True, errorMessage := m\<rparr>)" for m
      by (simp add: sameCall_def)
    with r' sameCall_next [OF c1] show ?thesis unfolding g
      by (auto split: if_splits)
  qed
  show ?case by (intro conjI allI impI) (erule (1) E EL T TL F)+
qed

lemma evaluate_sameCall:
  assumes "f \<noteq> []"
  shows "outcome (evaluate env st f) = outcome (evaluate env st' f)"
proof -
  let ?s0 = "st\<lparr>currentFormula := f, currentTokenIndex := 0, errorOccurred := False, errorMessage := ''''\<rparr>"
  let ?t0 = "st'\<lparr>currentFormula := f, currentTokenIndex := 0, errorOccurred := False, errorMessage := ''''\<rparr>"
  have c: "sameCall ?s0 ?t0" by (simp add: sameCall_def)
  have "remaining ?s0 = length f" by (simp add: remaining_def)
  then have "evaluateExpression (3 * length f + 3) env ?s0 \<noteq> None"
    using fuel_suffices [of "3 * length f + 3"] by simp
  then obtain v s1 where a: "evaluateExpression (3 * length f + 3) env ?s0 = Some (v, s1)" by auto
  from sameCall_descent [THEN conjunct1, rule_format, OF c a] obtain t1
    where a': "evaluateExpression (3 * length f + 3) env ?t0 = Some (v, t1)" and c1: "sameCall s1 t1"
    by blast
  from assms a a' c1 show ?thesis
    by (simp add: evaluate_def evaluateFuel_def outcome_def get_result_def get_error_def Let_def
        sameCall_def)
qed

lemma evaluate_empty:
  "outcome (evaluate env st []) = Some (Num 0, result st, emptyFormula env)"
  by (simp add: evaluate_def evaluateFuel_def outcome_def get_result_def get_error_def)

lemma evaluate_twice:
  "outcome (thenEvaluate env (evaluate env st f) f) = outcome (evaluate env st f)"
proof (cases "f = []")
  case True
  then show ?thesis
    by (simp add: thenEvaluate_def evaluate_def evaluateFuel_def outcome_def get_result_def get_error_def)
next
  case False
  obtain v s' where r: "evaluate env st f = Some (v, s')"
    using evaluate_returns [of env st f] by blast
  from evaluate_sameCall [OF False, of env s' st] r show ?thesis
    by (simp add: thenEvaluate_def)
qed

subsection \<open>The conversion on the tokens of the examples\<close>

lemmas number_defs = ToNumber_def StringToNumber_def trimString_def isStrWhiteSpaceChar_def
  nonDecimalIntegerLiteral_def strUnsignedDecimalLiteral_def exponentPart_def isDecimalDigit_def
  digitsValue_def digitValue_def scale10_def isDigitOfBase_def Let_def

lemma ToNumber_literals:
  "ToNumber (Some ''0'') = Num 0" "ToNumber (Some ''1'') = Num 1" "ToNumber (Some ''2'') = Num 2"
  "ToNumber (Some ''3'') = Num 3" "ToNumber (Some ''4'') = Num 4" "ToNumber (Some ''5'') = Num 5"
  "ToNumber (Some '''') = Num 0" "ToNumber (Some ''8'') = Num 8"
  by (simp_all add: number_defs)

lemma ToNumber_punctuation:
  "ToNumber (Some ''+'') = NaN" "ToNumber (Some ''-'') = NaN" "ToNumber (Some ''*'') = NaN"
  "ToNumber (Some ''/'') = NaN" "ToNumber (Some ''('') = NaN" "ToNumber (Some '')'') = NaN"
  "ToNumber None = NaN"
  by (simp_all add: number_defs)

lemmas token_simps = ToNumber_literals ToNumber_punctuation isNumber_def isNaN_def
  currentToken_def nextToken_def isCurrentToken_def

lemmas run_simps = evaluate_def evaluateFuel_def outcome_def returned_def thenEvaluate_def
  get_result_def get_error_def eval_nat_numeral token_simps

lemma sampleEnv_simps:
  "emptyFormula sampleEnv = ''EmptyFormula''" "invalidFormula sampleEnv = ''InvalidFormula''"
  "divideByZero sampleEnv = ''DivideByZero''" "invalidCell sampleEnv = ''InvalidCell''"
  "isCellReference sampleEnv t = (t \<in> set [Some ''A1'', Some ''B1'', Some ''C1'', Some ''D1''])"
  "isValidCellLabel sampleEnv t = (t \<in> set [Some ''A1'', Some ''B1'', Some ''C1'', Some ''D1''])"
  "getCellByLabel sampleEnv = sampleCells"
  by (simp_all add: sampleEnv_def isCellReference_def)

subsection \<open>The value that a call hands on\<close>

lemma evaluate_link:
  assumes "f \<noteq> []" and "3 * length f + 3 \<le> fuel"
    and e: "evaluateExpression fuel env (startOfCall st f) = Some (v1, s1)"
  shows "evaluate env st f =
    (if currentTokenIndex s1 \<noteq> length f \<and> \<not> errorOccurred s1
     then Some (Num 0, s1\<lparr>result := v1, lastResult := v1, errorMessage := invalidFormula env\<rparr>)
     else Some (v1, s1\<lparr>result := v1, lastResult := v1\<rparr>))"
proof -
  have "evaluateFuel fuel env st f = evaluate env st f"
    using assms(2) by (rule evaluateFuel_enough)
  then have "evaluate env st f = evaluateFuel fuel env st f" by simp
  also have "\<dots> = (if currentTokenIndex s1 \<noteq> length f \<and> \<not> errorOccurred s1
     then Some (Num 0, s1\<lparr>result := v1, lastResult := v1, errorMessage := invalidFormula env\<rparr>)
     else Some (v1, s1\<lparr>result := v1, lastResult := v1\<rparr>))"
    using assms(1) e by (simp add: evaluateFuel_def startOfCall_def Let_def)
  finally show ?thesis .
qed

subsection \<open>Bounds on the steps and on the call depth\<close>

lemma T_bound:
  "(\<forall>env s v s'. evaluateExpression n env s = Some (v, s') \<longrightarrow>
      T_evaluateExpression n env s + 5 * remaining s' \<le> 5 * remaining s + 5) \<and>
   (\<forall>env v0 s v s'. expressionLoop n env v0 s = Some (v, s') \<longrightarrow>
      T_expressionLoop n env s + 5 * remaining s' \<le> 5 * remaining s + 1) \<and>
   (\<forall>env s v s'. evaluateTerm n env s = Some (v, s') \<longrightarrow>
      T_evaluateTerm n env s + 5 * remaining s' \<le> 5 * remaining s + 3) \<and>
   (\<forall>env v0 s v s'. termLoop n env v0 s = Some (v, s') \<longrightarrow>
      T_termLoop n env s + 5 * remaining s' \<le> 5 * remaining s + 1) \<and>
   (\<forall>env s v s'. evaluateFactor n env s = Some (v, s') \<longrightarrow>
      T_evaluateFactor n env s + 5 * remaining s' \<le> 5 * remaining s + 1)"
proof (induction n)
  case 0
  show ?case by simp
next
  case (Suc n)
  note IH_E = Suc.IH [THEN conjunct1, rule_format]
    and IH_EL = Suc.IH [THEN conjunct2, THEN conjunct1, rule_format]
    and IH_T = Suc.IH [THEN conjunct2, THEN conjunct2, THEN conjunct1, rule_format]
    and IH_TL = Suc.IH [THEN conjunct2, THEN conjunct2, THEN conjunct2, THEN conjunct1, rule_format]
    and IH_F = Suc.IH [THEN conjunct2, THEN conjunct2, THEN conjunct2, THEN conjunct2, rule_format]
  have E: "T_evaluateExpression (Suc n) env s + 5 * remaining s' \<le> 5 * remaining s + 5"
    if r: "evaluateExpression (Suc n) env s = Some (v, s')" for env s v s'
  proof -
    from r obtain v1 s1 where a: "evaluateTerm n env s = Some (v1, s1)"
      and b: "expressionLoop n env v1 s1 = Some (v, s')"
      by (auto split: option.splits)
    from IH_T [OF a] IH_EL [OF b] a show ?thesis by simp
  qed
  have EL: "T_expressionLoop (Suc n) env s + 5 * remaining s' \<le> 5 * remaining s + 1"
    if r: "expressionLoop (Suc n) env v0 s = Some (v, s')" for env v0 s v s'
  proof (cases "currentToken s = Some ''+'' \<or> currentToken s = Some ''-''")
    case False
    with r show ?thesis by auto
  next
    case True
    with r obtain v2 s2 where a: "evaluateTerm n env (nextToken s) = Some (v2, s2)"
      and b: "expressionLoop n env (if currentToken s = Some ''+'' then js_add v0 v2 else js_sub v0 v2) s2 =
        Some (v, s')"
      by (auto simp: Let_def split: option.splits)
    from True have c: "Suc (remaining (nextToken s)) = remaining s"
      by (auto dest: remaining_nextToken)
    from IH_T [OF a] IH_EL [OF b] a c True show ?thesis by auto
  qed
  have T: "T_evaluateTerm (Suc n) env s + 5 * remaining s' \<le> 5 * remaining s + 3"
    if r: "evaluateTerm (Suc n) env s = Some (v, s')" for env s v s'
  proof -
    from r obtain v1 s1 where a: "evaluateFactor n env s = Some (v1, s1)"
      and b: "termLoop n env v1 s1 = Some (v, s')"
      by (auto split: option.splits)
    from IH_F [OF a] IH_TL [OF b] a show ?thesis by simp
  qed
  have TL: "T_termLoop (Suc n) env s + 5 * remaining s' \<le> 5 * remaining s + 1"
    if r: "termLoop (Suc n) env v0 s = Some (v, s')" for env v0 s v s'
  proof (cases "currentToken s = Some ''*'' \<or> currentToken s = Some ''/''")
    case False
    with r show ?thesis by auto
  next
    case True
    with r obtain v2 s2 where a: "evaluateFactor n env (nextToken s) = Some (v2, s2)"
      by (auto simp: Let_def split: option.splits)
    from True have c: "Suc (remaining (nextToken s)) = remaining s"
      by (auto dest: remaining_nextToken)
    show ?thesis
    proof (cases "currentToken s \<noteq> Some ''*'' \<and> v2 = Num 0")
      case True
      with r a \<open>currentToken s = Some ''*'' \<or> currentToken s = Some ''/''\<close>
      have "remaining s' = remaining s2"
        by (auto simp: Let_def remaining_def)
      with IH_F [OF a] a c True \<open>currentToken s = Some ''*'' \<or> currentToken s = Some ''/''\<close>
      show ?thesis by auto
    next
      case False
      with r a \<open>currentToken s = Some ''*'' \<or> currentToken s = Some ''/''\<close>
      obtain w where b: "termLoop n env w s2 = Some (v, s')"
        by (auto simp: Let_def split: if_splits)
      from IH_F [OF a] IH_TL [OF b] a c False
        \<open>currentToken s = Some ''*'' \<or> currentToken s = Some ''/''\<close>
      show ?thesis by auto
    qed
  qed
  have F: "T_evaluateFactor (Suc n) env s + 5 * remaining s' \<le> 5 * remaining s + 1"
    if r: "evaluateFactor (Suc n) env s = Some (v, s')" for env s v s'
  proof (cases "isNumber (currentToken s) \<or> isCellReference env (currentToken s) \<or>
        currentToken s \<noteq> Some ''(''")
    case True
    with r have "remaining s' \<le> remaining s"
      by (auto simp: Let_def remaining_def nextToken_def split: prod.splits if_splits)
    with True show ?thesis by auto
  next
    case False
    then have p: "currentToken s = Some ''(''" by simp
    from False have q: "\<not> isNumber (Some ''('')" "\<not> isCellReference env (Some ''('')"
      by (simp_all add: p)
    from r obtain v1 s1 where a: "evaluateExpression n env (nextToken s) = Some (v1, s1)"
      by (auto simp: p q split: option.splits)
    from r a have "remaining s' \<le> remaining s1"
      by (auto simp: p q remaining_def nextToken_def split: if_splits)
    with IH_E [OF a] remaining_nextToken [OF p] show ?thesis
      by (simp add: p q)
  qed
  show ?case by (intro conjI allI impI) (erule E EL T TL F)+
qed

lemma T_evaluate_bound: "T_evaluate env st f \<le> 5 * length f + 6"
proof (cases "f = []")
  case True
  then show ?thesis by (simp add: T_evaluate_def)
next
  case False
  let ?s0 = "st\<lparr>currentFormula := f, currentTokenIndex := 0, errorOccurred := False, errorMessage := ''''\<rparr>"
  have rem: "remaining ?s0 = length f" by (simp add: remaining_def)
  then have "evaluateExpression (3 * length f + 3) env ?s0 \<noteq> None"
    using fuel_suffices [of "3 * length f + 3"] by simp
  then obtain v s1 where "evaluateExpression (3 * length f + 3) env ?s0 = Some (v, s1)" by auto
  from T_bound [THEN conjunct1, rule_format, OF this] rem False show ?thesis
    by (simp add: T_evaluate_def)
qed

lemma filter_drop_le: "length (filter P (drop k ys)) \<le> length (filter P ys)"
proof -
  have "length (filter P ys) = length (filter P (take k ys)) + length (filter P (drop k ys))"
    by (metis append_take_drop_id filter_append length_append)
  then show ?thesis by simp
qed

lemma opens_mono:
  assumes "currentFormula s' = currentFormula s" and "currentTokenIndex s \<le> currentTokenIndex s'"
  shows "opens s' \<le> opens s"
proof -
  have "drop (currentTokenIndex s') (currentFormula s) =
      drop (currentTokenIndex s' - currentTokenIndex s) (drop (currentTokenIndex s) (currentFormula s))"
    using assms(2) by simp
  then show ?thesis
    unfolding opens_def assms(1) by (simp only: filter_drop_le)
qed

lemma descends_opens: "descends s s' \<Longrightarrow> opens s' \<le> opens s"
  by (rule opens_mono) (simp_all add: descends_def)

lemma opens_nextToken: "opens (nextToken s) \<le> opens s"
  by (rule opens_mono) (simp_all add: nextToken_def)

lemma opens_parenthesis:
  "currentToken s = Some ''('' \<Longrightarrow> Suc (opens (nextToken s)) = opens s"
  by (auto simp: currentToken_def opens_def nextToken_def Cons_nth_drop_Suc [symmetric]
      split: if_splits)

lemma D_bound:
  "(\<forall>env s. D_evaluateExpression n env s \<le> 3 * opens s + 3) \<and>
   (\<forall>env s. D_expressionLoop n env s \<le> 3 * opens s + 2) \<and>
   (\<forall>env s. D_evaluateTerm n env s \<le> 3 * opens s + 2) \<and>
   (\<forall>env s. D_termLoop n env s \<le> 3 * opens s + 1) \<and>
   (\<forall>env s. D_evaluateFactor n env s \<le> 3 * opens s + 1)"
proof (induction n)
  case 0
  show ?case by simp
next
  case (Suc n)
  note IH_E = Suc.IH [THEN conjunct1, rule_format]
    and IH_EL = Suc.IH [THEN conjunct2, THEN conjunct1, rule_format]
    and IH_T = Suc.IH [THEN conjunct2, THEN conjunct2, THEN conjunct1, rule_format]
    and IH_TL = Suc.IH [THEN conjunct2, THEN conjunct2, THEN conjunct2, THEN conjunct1, rule_format]
    and IH_F = Suc.IH [THEN conjunct2, THEN conjunct2, THEN conjunct2, THEN conjunct2, rule_format]
  have E: "D_evaluateExpression (Suc n) env s \<le> 3 * opens s + 3" for env s
  proof (cases "evaluateTerm n env s")
    case None
    with IH_T [of env s] show ?thesis by simp
  next
    case (Some r)
    obtain v s1 where r: "r = (v, s1)" by (cases r)
    from descent(3) [OF Some [unfolded r]] have "opens s1 \<le> opens s" by (rule descends_opens)
    with IH_T [of env s] IH_EL [of env s1] Some r show ?thesis by simp
  qed
  have EL: "D_expressionLoop (Suc n) env s \<le> 3 * opens s + 2" for env s
  proof (cases "evaluateTerm n env (nextToken s)")
    case None
    with IH_T [of env "nextToken s"] opens_nextToken [of s] show ?thesis by simp
  next
    case (Some r)
    obtain v s2 where r: "r = (v, s2)" by (cases r)
    from descent(3) [OF Some [unfolded r]] have "opens s2 \<le> opens (nextToken s)"
      by (rule descends_opens)
    with IH_T [of env "nextToken s"] IH_EL [of env s2] Some r opens_nextToken [of s]
    show ?thesis by simp
  qed
  have T: "D_evaluateTerm (Suc n) env s \<le> 3 * opens s + 2" for env s
  proof (cases "evaluateFactor n env s")
    case None
    with IH_F [of env s] show ?thesis by simp
  next
    case (Some r)
    obtain v s1 where r: "r = (v, s1)" by (cases r)
    from descent(5) [OF Some [unfolded r]] have "opens s1 \<le> opens s" by (rule descends_opens)
    with IH_F [of env s] IH_TL [of env s1] Some r show ?thesis by simp
  qed
  have TL: "D_termLoop (Suc n) env s \<le> 3 * opens s + 1" for env s
  proof (cases "evaluateFactor n env (nextToken s)")
    case None
    with IH_F [of env "nextToken s"] opens_nextToken [of s] show ?thesis by simp
  next
    case (Some r)
    obtain v s2 where r: "r = (v, s2)" by (cases r)
    from descent(5) [OF Some [unfolded r]] have "opens s2 \<le> opens (nextToken s)"
      by (rule descends_opens)
    with IH_F [of env "nextToken s"] IH_TL [of env s2] Some r opens_nextToken [of s]
    show ?thesis by simp
  qed
  have F: "D_evaluateFactor (Suc n) env s \<le> 3 * opens s + 1" for env s
  proof (cases "currentToken s = Some ''(''")
    case False
    then show ?thesis by simp
  next
    case True
    with IH_E [of env "nextToken s"] opens_parenthesis [OF True] show ?thesis by simp
  qed
  from E EL T TL F show ?case by simp
qed

lemma D_evaluate_bound:
  "D_evaluate env st f \<le> 3 * length (filter (\<lambda>t. t = ''('') f) + 4"
  using D_bound [THEN conjunct1, rule_format, of "3 * length f + 3" env
      "st\<lparr>currentFormula := f, currentTokenIndex := 0, errorOccurred := False, errorMessage := ''''\<rparr>"]
  by (simp add: D_evaluate_def opens_def)

lemma nested_tokens:
  assumes "currentFormula s = replicate k ''('' @ [''1'']"
  shows "currentTokenIndex s < k \<Longrightarrow> currentToken s = Some ''(''"
    and "currentTokenIndex s = k \<Longrightarrow> currentToken s = Some ''1''"
    and "k < currentTokenIndex s \<Longrightarrow> currentToken s = None"
  using assms by (auto simp: currentToken_def nth_append)

lemma nested_depth:
  assumes lbl: "\<not> isValidCellLabel env (Some ''('')"
  shows "currentFormula s = replicate k ''('' @ [''1''] \<Longrightarrow> currentTokenIndex s + j = k \<Longrightarrow>
    3 * j + 3 \<le> n \<Longrightarrow>
    D_evaluateExpression n env s = 3 * j + 3 \<and>
    (\<exists>v s'. evaluateExpression n env s = Some (v, s') \<and> currentTokenIndex s' = k + 1 \<and>
       currentFormula s' = currentFormula s)"
proof (induction j arbitrary: n s)
  case 0
  define m where "m = n - 3"
  from 0 have n: "n = Suc (Suc (Suc m))" by (simp add: m_def)
  from 0 have tok: "currentToken s = Some ''1''" by (simp add: nested_tokens)
  have nxt: "currentToken (nextToken s) = None"
    using 0 by (intro nested_tokens(3) [of _ k]) (simp_all add: nextToken_def)
  have f: "evaluateFactor (Suc m) env s = Some (Num 1, nextToken s)"
    by (simp add: tok isNumber_def isNaN_def ToNumber_literals)
  have t: "evaluateTerm (Suc (Suc m)) env s = Some (Num 1, nextToken s)"
    by (simp add: f nxt del: evaluateFactor.simps)
  have e: "evaluateExpression n env s = Some (Num 1, nextToken s)"
    unfolding n by (simp add: t nxt del: evaluateTerm.simps)
  have d: "D_evaluateExpression n env s = 3"
    unfolding n
    by (simp add: t f nxt tok isNumber_def isNaN_def ToNumber_literals
        del: evaluateTerm.simps evaluateFactor.simps)
  from e d 0 show ?case by (simp add: nextToken_def)
next
  case (Suc j)
  define m where "m = n - 3"
  from Suc.prems have n: "n = Suc (Suc (Suc m))" and m: "3 * j + 3 \<le> m"
    by (simp_all add: m_def)
  from Suc.prems have tok: "currentToken s = Some ''(''" by (simp add: nested_tokens)
  have q: "\<not> isNumber (Some ''('')" "\<not> isCellReference env (Some ''('')"
    using lbl by (simp_all add: isNumber_def isNaN_def ToNumber_punctuation isCellReference_def)
  have "currentFormula (nextToken s) = replicate k ''('' @ [''1'']"
    "currentTokenIndex (nextToken s) + j = k"
    using Suc.prems by (simp_all add: nextToken_def)
  from Suc.IH [OF this m] obtain v s1
    where d1: "D_evaluateExpression m env (nextToken s) = 3 * j + 3"
      and e1: "evaluateExpression m env (nextToken s) = Some (v, s1)"
      and i1: "currentTokenIndex s1 = k + 1"
      and f1: "currentFormula s1 = replicate k ''('' @ [''1'']"
    using Suc.prems(1) by (auto simp: nextToken_def)
  have end1: "currentToken s1 = None"
    using f1 i1 by (intro nested_tokens(3) [of _ k]) simp_all
  let ?s2 = "s1\<lparr>errorOccurred := True, errorMessage := invalidFormula env\<rparr>"
  have end2: "currentToken ?s2 = None"
    using end1 by (simp add: currentToken_def split: if_splits)
  have f: "evaluateFactor (Suc m) env s = Some (v, ?s2)"
    by (simp add: tok q e1 isCurrentToken_def end1)
  have t: "evaluateTerm (Suc (Suc m)) env s = Some (v, ?s2)"
    by (simp add: f end2 del: evaluateFactor.simps)
  have e: "evaluateExpression n env s = Some (v, ?s2)"
    unfolding n by (simp add: t end2 del: evaluateTerm.simps)
  have d: "D_evaluateExpression n env s = 3 * Suc j + 3"
    unfolding n
    by (simp add: t f end2 tok q d1 del: evaluateTerm.simps evaluateFactor.simps)
  from e d i1 f1 Suc.prems(1) show ?case by simp
qed

lemma nested_depth_evaluate:
  assumes "\<not> isValidCellLabel env (Some ''('')"
  shows "D_evaluate env st (replicate k ''('' @ [''1'']) = 3 * k + 4"
  using nested_depth [OF assms, of
      "st\<lparr>currentFormula := replicate k ''('' @ [''1''], currentTokenIndex := 0,
          errorOccurred := False, errorMessage := ''''\<rparr>" k k "3 * length (replicate k ''('' @ [''1'']) + 3"]
  by (simp add: D_evaluate_def)

subsection \<open>Tokens that are numbers\<close>

lemma isNumber_not_punctuation:
  assumes "isNumber (Some a)"
  shows "a \<noteq> ''+''" "a \<noteq> ''-''" "a \<noteq> ''*''" "a \<noteq> ''/''" "a \<noteq> ''(''" "a \<noteq> '')''"
  using assms by (auto simp: isNumber_def isNaN_def ToNumber_punctuation)

section \<open>The claims of the specification\<close>

subsection \<open>C1: precedence and grouping\<close>

text \<open>
  Claim C1. For the tokens \<open>2 + 3 * 4\<close> the call returns 14 and for \<open>( 2 + 3 ) * 4\<close> it
  returns 20; the \<open>result\<close> getter holds the same number and the error is empty. This
  holds for every store and whatever instance the call is made on. The factor tests
  for a cell label before it tests for the parenthesis, so the second formula needs
  that the label test of the class \<open>Cell\<close> rejects the token \<open>(\<close>. Operators of one
  level are applied from left to right: \<open>5 - 3 - 1\<close> is 1, \<open>8 / 4 / 2\<close> is 1,
  \<open>2 - 3 + 4\<close> is 3 and \<open>8 / 4 * 2\<close> is 4, and \<open>8 - 4 / 2\<close> is 6. In general, for
  any three tokens \<open>a\<close>, \<open>b\<close>, \<open>c\<close> that are numbers, \<open>a - b - c\<close> is \<open>(a - b) - c\<close>,
  \<open>a / b / c\<close> is \<open>(a / b) / c\<close> when neither divisor is 0, \<open>a + b * c\<close> is
  \<open>a + (b * c)\<close> and \<open>a - b / c\<close> is \<open>a - (b / c)\<close> when \<open>c\<close> is not 0, all with the
  empty error.
\<close>

theorem evaluate_precedence:
  "outcome (evaluate env st [''2'', ''+'', ''3'', ''*'', ''4'']) = Some (Num 14, Num 14, '''') \<and>
   (\<not> isValidCellLabel env (Some ''('') \<longrightarrow>
      outcome (evaluate env st [''('', ''2'', ''+'', ''3'', '')'', ''*'', ''4'']) =
        Some (Num 20, Num 20, '''')) \<and>
   outcome (evaluate env st [''5'', ''-'', ''3'', ''-'', ''1'']) = Some (Num 1, Num 1, '''') \<and>
   outcome (evaluate env st [''8'', ''/'', ''4'', ''/'', ''2'']) = Some (Num 1, Num 1, '''') \<and>
   outcome (evaluate env st [''2'', ''-'', ''3'', ''+'', ''4'']) = Some (Num 3, Num 3, '''') \<and>
   outcome (evaluate env st [''8'', ''/'', ''4'', ''*'', ''2'']) = Some (Num 4, Num 4, '''') \<and>
   outcome (evaluate env st [''8'', ''-'', ''4'', ''/'', ''2'']) = Some (Num 6, Num 6, '''') \<and>
   (isNumber (Some a) \<and> isNumber (Some b) \<and> isNumber (Some c) \<longrightarrow>
      outcome (evaluate env st [a, ''-'', b, ''-'', c]) =
        Some (js_sub (js_sub (ToNumber (Some a)) (ToNumber (Some b))) (ToNumber (Some c)),
              js_sub (js_sub (ToNumber (Some a)) (ToNumber (Some b))) (ToNumber (Some c)), '''') \<and>
      outcome (evaluate env st [a, ''+'', b, ''*'', c]) =
        Some (js_add (ToNumber (Some a)) (js_mul (ToNumber (Some b)) (ToNumber (Some c))),
              js_add (ToNumber (Some a)) (js_mul (ToNumber (Some b)) (ToNumber (Some c))), '''') \<and>
      (ToNumber (Some b) \<noteq> Num 0 \<and> ToNumber (Some c) \<noteq> Num 0 \<longrightarrow>
         outcome (evaluate env st [a, ''/'', b, ''/'', c]) =
           Some (js_div (js_div (ToNumber (Some a)) (ToNumber (Some b))) (ToNumber (Some c)),
                 js_div (js_div (ToNumber (Some a)) (ToNumber (Some b))) (ToNumber (Some c)), '''')) \<and>
      (ToNumber (Some c) \<noteq> Num 0 \<longrightarrow>
         outcome (evaluate env st [a, ''-'', b, ''/'', c]) =
           Some (js_sub (ToNumber (Some a)) (js_div (ToNumber (Some b)) (ToNumber (Some c))),
                 js_sub (ToNumber (Some a)) (js_div (ToNumber (Some b)) (ToNumber (Some c))), '''')))"
proof -
  have concrete:
    "outcome (evaluate env st [''2'', ''+'', ''3'', ''*'', ''4'']) = Some (Num 14, Num 14, '''')"
    "\<not> isValidCellLabel env (Some ''('') \<longrightarrow>
      outcome (evaluate env st [''('', ''2'', ''+'', ''3'', '')'', ''*'', ''4'']) =
        Some (Num 20, Num 20, '''')"
    "outcome (evaluate env st [''5'', ''-'', ''3'', ''-'', ''1'']) = Some (Num 1, Num 1, '''')"
    "outcome (evaluate env st [''8'', ''/'', ''4'', ''/'', ''2'']) = Some (Num 1, Num 1, '''')"
    "outcome (evaluate env st [''2'', ''-'', ''3'', ''+'', ''4'']) = Some (Num 3, Num 3, '''')"
    "outcome (evaluate env st [''8'', ''/'', ''4'', ''*'', ''2'']) = Some (Num 4, Num 4, '''')"
    "outcome (evaluate env st [''8'', ''-'', ''4'', ''/'', ''2'']) = Some (Num 6, Num 6, '''')"
    by (simp_all add: run_simps isCellReference_def js_sub_def)
  have general:
    "outcome (evaluate env st [a, ''-'', b, ''-'', c]) =
        Some (js_sub (js_sub (ToNumber (Some a)) (ToNumber (Some b))) (ToNumber (Some c)),
              js_sub (js_sub (ToNumber (Some a)) (ToNumber (Some b))) (ToNumber (Some c)), '''') \<and>
      outcome (evaluate env st [a, ''+'', b, ''*'', c]) =
        Some (js_add (ToNumber (Some a)) (js_mul (ToNumber (Some b)) (ToNumber (Some c))),
              js_add (ToNumber (Some a)) (js_mul (ToNumber (Some b)) (ToNumber (Some c))), '''') \<and>
      (ToNumber (Some b) \<noteq> Num 0 \<and> ToNumber (Some c) \<noteq> Num 0 \<longrightarrow>
         outcome (evaluate env st [a, ''/'', b, ''/'', c]) =
           Some (js_div (js_div (ToNumber (Some a)) (ToNumber (Some b))) (ToNumber (Some c)),
                 js_div (js_div (ToNumber (Some a)) (ToNumber (Some b))) (ToNumber (Some c)), '''')) \<and>
      (ToNumber (Some c) \<noteq> Num 0 \<longrightarrow>
         outcome (evaluate env st [a, ''-'', b, ''/'', c]) =
           Some (js_sub (ToNumber (Some a)) (js_div (ToNumber (Some b)) (ToNumber (Some c))),
                 js_sub (ToNumber (Some a)) (js_div (ToNumber (Some b)) (ToNumber (Some c))), ''''))"
    if n: "isNumber (Some a)" "isNumber (Some b)" "isNumber (Some c)"
    using n isNumber_not_punctuation [OF n(1)] isNumber_not_punctuation [OF n(2)]
      isNumber_not_punctuation [OF n(3)]
    by (simp add: evaluate_def evaluateFuel_def outcome_def get_result_def get_error_def
        eval_nat_numeral currentToken_def nextToken_def ToNumber_punctuation isNumber_def isNaN_def)
  from concrete general show ?thesis by (simp del: ToNumber_def)
qed

text \<open>
  Claim C1 on the sample sheet and a fresh instance, with the tokens \<open>8\<close>, \<open>4\<close> and
  \<open>2\<close> for the general chains.
\<close>

theorem evaluate_precedence_witness:
  "outcome (evaluate sampleEnv newFormulaEvaluator [''2'', ''+'', ''3'', ''*'', ''4'']) =
     Some (Num 14, Num 14, '''') \<and>
   \<not> isValidCellLabel sampleEnv (Some ''('') \<and>
   outcome (evaluate sampleEnv newFormulaEvaluator [''('', ''2'', ''+'', ''3'', '')'', ''*'', ''4'']) =
     Some (Num 20, Num 20, '''') \<and>
   isNumber (Some ''8'') \<and> isNumber (Some ''4'') \<and> isNumber (Some ''2'') \<and>
   ToNumber (Some ''4'') \<noteq> Num 0 \<and> ToNumber (Some ''2'') \<noteq> Num 0 \<and>
   outcome (evaluate sampleEnv newFormulaEvaluator [''8'', ''-'', ''4'', ''-'', ''2'']) =
     Some (Num 2, Num 2, '''') \<and>
   outcome (evaluate sampleEnv newFormulaEvaluator [''8'', ''+'', ''4'', ''*'', ''2'']) =
     Some (Num 16, Num 16, '''') \<and>
   outcome (evaluate sampleEnv newFormulaEvaluator [''8'', ''/'', ''4'', ''/'', ''2'']) =
     Some (Num 1, Num 1, '''') \<and>
   outcome (evaluate sampleEnv newFormulaEvaluator [''8'', ''-'', ''4'', ''/'', ''2'']) =
     Some (Num 6, Num 6, '''')"
proof -
  have h: "\<not> isValidCellLabel sampleEnv (Some ''('')"
    by (simp add: sampleEnv_simps)
  have n: "isNumber (Some ''8'') \<and> isNumber (Some ''4'') \<and> isNumber (Some ''2'')"
    by (simp add: isNumber_def isNaN_def ToNumber_literals)
  have z: "ToNumber (Some ''4'') \<noteq> Num 0 \<and> ToNumber (Some ''2'') \<noteq> Num 0"
    "ToNumber (Some ''2'') \<noteq> Num 0"
    by (simp_all add: ToNumber_literals)
  note g = evaluate_precedence [THEN conjunct2, THEN conjunct2, THEN conjunct2, THEN conjunct2,
      THEN conjunct2, THEN conjunct2, THEN conjunct2, rule_format, OF n,
      of sampleEnv newFormulaEvaluator]
  from evaluate_precedence [THEN conjunct1, of sampleEnv newFormulaEvaluator]
    evaluate_precedence [THEN conjunct2, THEN conjunct1, rule_format, OF h, of newFormulaEvaluator]
    g [THEN conjunct1] g [THEN conjunct2, THEN conjunct1]
    g [THEN conjunct2, THEN conjunct2, THEN conjunct1, rule_format, OF z(1)]
    g [THEN conjunct2, THEN conjunct2, THEN conjunct2, rule_format, OF z(2)]
    h n z
  show ?thesis by (simp add: ToNumber_literals js_sub_def del: ToNumber_def)
qed

subsection \<open>C2: division by zero\<close>

text \<open>
  Claim C2. In the loop of a term, when the operator is \<open>/\<close> and the factor to its
  right evaluates to 0, the loop ends at once: the term is \<open>Infinity\<close>, the error is
  \<open>divideByZero\<close>, the flag is set, and the instance is the one the factor left (the
  cursor stands right after the zero factor, nothing further is read). So
  \<open>5 / 0\<close> gives \<open>Infinity\<close> with \<open>divideByZero\<close>, and in \<open>5 / 0 * 2\<close> the tokens
  \<open>* 2\<close> are left unread with the cursor at 3.
\<close>

theorem division_by_zero:
  "(currentToken s = Some ''/'' \<longrightarrow> evaluateFactor n env (nextToken s) = Some (Num 0, s2) \<longrightarrow>
      termLoop (Suc n) env v s =
        Some (Infinity, s2\<lparr>errorMessage := divideByZero env, errorOccurred := True,
                            lastResult := Infinity\<rparr>)) \<and>
   outcome (evaluate env st [''5'', ''/'', ''0'']) = Some (Infinity, Infinity, divideByZero env) \<and>
   outcome (evaluate env st [''5'', ''/'', ''0'', ''*'', ''2'']) =
     Some (Infinity, Infinity, divideByZero env) \<and>
   map_option (currentTokenIndex \<circ> snd) (evaluate env st [''5'', ''/'', ''0'', ''*'', ''2'']) = Some 3"
  by (simp add: run_simps)

text \<open>Claim C2 at the division of \<open>5 / 0\<close>, with the cursor on the operator.\<close>

theorem division_by_zero_witness:
  "currentToken (newFormulaEvaluator\<lparr>currentFormula := [''5'', ''/'', ''0''], currentTokenIndex := 1\<rparr>) =
     Some ''/'' \<and>
   evaluateFactor 1 sampleEnv
     (nextToken (newFormulaEvaluator\<lparr>currentFormula := [''5'', ''/'', ''0''], currentTokenIndex := 1\<rparr>)) =
     Some (Num 0, newFormulaEvaluator\<lparr>currentFormula := [''5'', ''/'', ''0''], currentTokenIndex := 3\<rparr>) \<and>
   termLoop (Suc 1) sampleEnv (Num 5)
     (newFormulaEvaluator\<lparr>currentFormula := [''5'', ''/'', ''0''], currentTokenIndex := 1\<rparr>) =
     Some (Infinity,
       newFormulaEvaluator\<lparr>currentFormula := [''5'', ''/'', ''0''], currentTokenIndex := 3,
         errorMessage := ''DivideByZero'', errorOccurred := True, lastResult := Infinity\<rparr>)"
proof -
  let ?s = "newFormulaEvaluator\<lparr>currentFormula := [''5'', ''/'', ''0''], currentTokenIndex := 1\<rparr>"
  let ?s2 = "newFormulaEvaluator\<lparr>currentFormula := [''5'', ''/'', ''0''], currentTokenIndex := 3\<rparr>"
  have h1: "currentToken ?s = Some ''/''"
    by (simp add: newFormulaEvaluator_def token_simps)
  have h2: "evaluateFactor 1 sampleEnv (nextToken ?s) = Some (Num 0, ?s2)"
    by (simp add: newFormulaEvaluator_def token_simps)
  from division_by_zero [THEN conjunct1, rule_format, OF h1 h2, of "Num 5"] h1 h2
  show ?thesis by (simp add: sampleEnv_simps newFormulaEvaluator_def)
qed

subsection \<open>C3: the dereference of a cell\<close>

text \<open>
  Claim C3. When the current token is not a number and is a cell label, the lookup and
  the factor follow this priority: a stored error that is neither empty nor the
  empty-formula message is handed on as it is, with the value 0; otherwise an empty
  stored formula gives 0 with \<open>invalidCell\<close>; otherwise the stored value with no error.
  The factor records a non-empty error of the lookup with the flag and always moves
  the cursor on.
\<close>

theorem cell_dereference:
  assumes "\<not> isNumber (currentToken s)" and "isCellReference env (currentToken s)"
  shows "getCellValue env (currentToken s) =
          (let cell = getCellByLabel env (currentToken s) in
           if getError cell \<noteq> '''' \<and> getError cell \<noteq> emptyFormula env then (Num 0, getError cell)
           else if getFormula cell = [] then (Num 0, invalidCell env)
           else (getValue cell, '''')) \<and>
         evaluateFactor (Suc n) env s =
          (let cell = getCellByLabel env (currentToken s) in
           if getError cell \<noteq> '''' \<and> getError cell \<noteq> emptyFormula env
           then Some (Num 0, nextToken (s\<lparr>errorMessage := getError cell, errorOccurred := True\<rparr>))
           else if getFormula cell = []
           then Some (Num 0, nextToken (if invalidCell env \<noteq> ''''
                                        then s\<lparr>errorMessage := invalidCell env, errorOccurred := True\<rparr>
                                        else s))
           else Some (getValue cell, nextToken s))"
  using assms by (simp add: Let_def getCellValue_def)

text \<open>
  Claim C3 on the sample sheet, one cell for each case: \<open>C1\<close> carries an error, \<open>B1\<close>
  has no formula, \<open>A1\<close> holds 5.
\<close>

theorem cell_dereference_witness:
  "evaluateFactor (Suc 0) sampleEnv (newFormulaEvaluator\<lparr>currentFormula := [''C1'']\<rparr>) =
     Some (Num 0, newFormulaEvaluator\<lparr>currentFormula := [''C1''], currentTokenIndex := 1,
                    errorMessage := ''DivideByZero'', errorOccurred := True\<rparr>) \<and>
   evaluateFactor (Suc 0) sampleEnv (newFormulaEvaluator\<lparr>currentFormula := [''B1'']\<rparr>) =
     Some (Num 0, newFormulaEvaluator\<lparr>currentFormula := [''B1''], currentTokenIndex := 1,
                    errorMessage := ''InvalidCell'', errorOccurred := True\<rparr>) \<and>
   evaluateFactor (Suc 0) sampleEnv (newFormulaEvaluator\<lparr>currentFormula := [''A1'']\<rparr>) =
     Some (Num 5, newFormulaEvaluator\<lparr>currentFormula := [''A1''], currentTokenIndex := 1\<rparr>)"
proof -
  have tok: "currentToken (newFormulaEvaluator\<lparr>currentFormula := [t]\<rparr>) = Some t" for t
    by (simp add: newFormulaEvaluator_def currentToken_def)
  have nan: "\<not> isNumber (Some ''A1'')" "\<not> isNumber (Some ''B1'')" "\<not> isNumber (Some ''C1'')"
    by (simp_all add: isNumber_def isNaN_def number_defs)
  have lbl: "isCellReference sampleEnv (Some ''A1'')" "isCellReference sampleEnv (Some ''B1'')"
    "isCellReference sampleEnv (Some ''C1'')"
    by (simp_all add: sampleEnv_simps)
  have new: "currentTokenIndex newFormulaEvaluator = 0"
    by (simp add: newFormulaEvaluator_def)
  have c: "evaluateFactor (Suc 0) sampleEnv (newFormulaEvaluator\<lparr>currentFormula := [''C1'']\<rparr>) =
     Some (Num 0, newFormulaEvaluator\<lparr>currentFormula := [''C1''], currentTokenIndex := 1,
                    errorMessage := ''DivideByZero'', errorOccurred := True\<rparr>)"
    using cell_dereference [of "newFormulaEvaluator\<lparr>currentFormula := [''C1'']\<rparr>" sampleEnv 0] nan lbl
    by (simp add: tok sampleEnv_simps sampleCells_def nextToken_def new del: evaluateFactor.simps)
  have b: "evaluateFactor (Suc 0) sampleEnv (newFormulaEvaluator\<lparr>currentFormula := [''B1'']\<rparr>) =
     Some (Num 0, newFormulaEvaluator\<lparr>currentFormula := [''B1''], currentTokenIndex := 1,
                    errorMessage := ''InvalidCell'', errorOccurred := True\<rparr>)"
    using cell_dereference [of "newFormulaEvaluator\<lparr>currentFormula := [''B1'']\<rparr>" sampleEnv 0] nan lbl
    by (simp add: tok sampleEnv_simps sampleCells_def nextToken_def new del: evaluateFactor.simps)
  have a: "evaluateFactor (Suc 0) sampleEnv (newFormulaEvaluator\<lparr>currentFormula := [''A1'']\<rparr>) =
     Some (Num 5, newFormulaEvaluator\<lparr>currentFormula := [''A1''], currentTokenIndex := 1\<rparr>)"
    using cell_dereference [of "newFormulaEvaluator\<lparr>currentFormula := [''A1'']\<rparr>" sampleEnv 0] nan lbl
    by (simp add: tok sampleEnv_simps sampleCells_def nextToken_def new del: evaluateFactor.simps)
  from a b c show ?thesis by simp
qed

subsection \<open>C4: the number reported with an error\<close>

text \<open>
  Claim C4 says that an evaluation that ends with an error reports 0, or \<open>Infinity\<close>
  after a division by zero. It fails for the formula \<open>1 +\<close>: the missing term is an
  invalid factor, which counts as 0, and the sum 1 is what the call returns and what
  the \<open>result\<close> getter holds, together with the error \<open>invalidFormula\<close>. It also fails
  for \<open>0 - 5 / 0\<close>: the term \<open>5 / 0\<close> is \<open>Infinity\<close>, the difference is the negative
  infinity, and that is what the call reports with the error \<open>divideByZero\<close>.
\<close>

theorem erroring_result_counterexample:
  "outcome (evaluate sampleEnv newFormulaEvaluator [''1'', ''+'']) =
     Some (Num 1, Num 1, ''InvalidFormula'') \<and>
   ''InvalidFormula'' \<noteq> '''' \<and> Num 1 \<noteq> Num 0 \<and> Num 1 \<noteq> Infinity \<and>
   outcome (evaluate sampleEnv newFormulaEvaluator [''0'', ''-'', ''5'', ''/'', ''0'']) =
     Some (NegInfinity, NegInfinity, ''DivideByZero'') \<and>
   NegInfinity \<noteq> Infinity \<and> NegInfinity \<noteq> Num 0"
  by (simp add: run_simps sampleEnv_simps js_sub_def)

text \<open>
  Claim C4 as amended. The empty formula returns 0. For any other formula let the
  descent from the start of the call return the number \<open>v1\<close> and the instance \<open>s1\<close>:
  if tokens are left over and the flag is not set, \<open>evaluate\<close> returns 0 (and the
  getter holds \<open>v1\<close>); in every other case, so whenever the flag is set, it returns
  \<open>v1\<close> itself, which the getter holds too. Hence a call that ends with an error and
  no flag returns 0, and a call that ends with the flag returns what the getter
  holds. In \<open>v1\<close> an invalid factor and a cell lookup with an error count as 0 and a
  term with a division by zero counts as \<open>Infinity\<close>; the expression around them
  computes on with these numbers.
\<close>

theorem erroring_result_value:
  "evaluate env st [] = Some (Num 0, (startOfCall st [])\<lparr>errorMessage := emptyFormula env\<rparr>) \<and>
   (f \<noteq> [] \<longrightarrow> 3 * length f + 3 \<le> fuel \<longrightarrow>
    evaluateExpression fuel env (startOfCall st f) = Some (v1, s1) \<longrightarrow>
      evaluate env st f =
        (if currentTokenIndex s1 \<noteq> length f \<and> \<not> errorOccurred s1
         then Some (Num 0, s1\<lparr>result := v1, lastResult := v1, errorMessage := invalidFormula env\<rparr>)
         else Some (v1, s1\<lparr>result := v1, lastResult := v1\<rparr>))) \<and>
   (evaluate env st f = Some (v, s') \<longrightarrow>
      (errorMessage s' \<noteq> '''' \<and> \<not> errorOccurred s' \<longrightarrow> v = Num 0) \<and>
      (errorOccurred s' \<longrightarrow> v = result s')) \<and>
   (\<not> isNumber (currentToken s) \<and> \<not> isCellReference env (currentToken s) \<and>
    currentToken s \<noteq> Some ''('' \<longrightarrow>
      map_option fst (evaluateFactor (Suc n) env s) = Some (Num 0)) \<and>
   (snd (getCellValue env t) \<noteq> '''' \<longrightarrow> fst (getCellValue env t) = Num 0) \<and>
   (currentToken s = Some ''/'' \<longrightarrow> evaluateFactor n env (nextToken s) = Some (Num 0, s2) \<longrightarrow>
      map_option fst (termLoop (Suc n) env v0 s) = Some Infinity)"
proof (intro conjI impI)
  show "evaluate env st [] = Some (Num 0, (startOfCall st [])\<lparr>errorMessage := emptyFormula env\<rparr>)"
    by (simp add: evaluate_def evaluateFuel_def startOfCall_def)
next
  assume "f \<noteq> []" "3 * length f + 3 \<le> fuel"
    "evaluateExpression fuel env (startOfCall st f) = Some (v1, s1)"
  then show "evaluate env st f =
        (if currentTokenIndex s1 \<noteq> length f \<and> \<not> errorOccurred s1
         then Some (Num 0, s1\<lparr>result := v1, lastResult := v1, errorMessage := invalidFormula env\<rparr>)
         else Some (v1, s1\<lparr>result := v1, lastResult := v1\<rparr>))"
    by (rule evaluate_link)
next
  assume r: "evaluate env st f = Some (v, s')"
  have inv: "(errorMessage s' \<noteq> '''' \<and> \<not> errorOccurred s' \<longrightarrow> v = Num 0) \<and>
      (errorOccurred s' \<longrightarrow> v = result s')"
  proof (cases "f = []")
    case True
    with r show ?thesis by (auto simp: evaluate_def evaluateFuel_def)
  next
    case False
    from r False obtain w s1
      where e: "evaluateExpression (3 * length f + 3) env (startOfCall st f) = Some (w, s1)"
      by (auto simp: evaluate_def evaluateFuel_def startOfCall_def split: option.splits)
    from descent(1) [OF e] have "errorMessage s1 = '''' \<or> errorOccurred s1"
      by (simp add: descends_def startOfCall_def)
    with r evaluate_link [OF False order_refl e] show ?thesis
      by (auto split: if_splits)
  qed
  { assume "errorMessage s' \<noteq> '''' \<and> \<not> errorOccurred s'"
    with inv show "v = Num 0" by simp }
  { assume "errorOccurred s'"
    with inv show "v = result s'" by simp }
next
  assume "\<not> isNumber (currentToken s) \<and> \<not> isCellReference env (currentToken s) \<and>
    currentToken s \<noteq> Some ''(''"
  then show "map_option fst (evaluateFactor (Suc n) env s) = Some (Num 0)" by simp
next
  assume "snd (getCellValue env t) \<noteq> ''''"
  then show "fst (getCellValue env t) = Num 0"
    by (auto simp: getCellValue_def Let_def split: if_splits)
next
  assume "currentToken s = Some ''/''" "evaluateFactor n env (nextToken s) = Some (Num 0, s2)"
  then show "map_option fst (termLoop (Suc n) env v0 s) = Some Infinity"
    by (simp add: Let_def)
qed

text \<open>
  Claim C4 as amended, on \<open>1 + 2 3\<close> (tokens left over, no flag, 0 returned), on
  \<open>1 +\<close> (flag set, the computed 1 returned), on a factor at the token \<open>)\<close>, on the
  lookup of the cell \<open>B1\<close> without a formula, and on the division of \<open>5 / 0\<close>.
\<close>

theorem erroring_result_value_witness:
  "evaluateExpression 15 sampleEnv (startOfCall newFormulaEvaluator [''1'', ''+'', ''2'', ''3'']) =
     Some (Num 3, \<lparr>currentTokenIndex = 3, errorOccurred = False, errorMessage = '''',
                    currentFormula = [''1'', ''+'', ''2'', ''3''], lastResult = Num 0, result = Num 0\<rparr>) \<and>
   evaluate sampleEnv newFormulaEvaluator [''1'', ''+'', ''2'', ''3''] =
     Some (Num 0, \<lparr>currentTokenIndex = 3, errorOccurred = False, errorMessage = ''InvalidFormula'',
                    currentFormula = [''1'', ''+'', ''2'', ''3''], lastResult = Num 3, result = Num 3\<rparr>) \<and>
   evaluateExpression 9 sampleEnv (startOfCall newFormulaEvaluator [''1'', ''+'']) =
     Some (Num 1, \<lparr>currentTokenIndex = 2, errorOccurred = True, errorMessage = ''InvalidFormula'',
                    currentFormula = [''1'', ''+''], lastResult = Num 0, result = Num 0\<rparr>) \<and>
   evaluate sampleEnv newFormulaEvaluator [''1'', ''+''] =
     Some (Num 1, \<lparr>currentTokenIndex = 2, errorOccurred = True, errorMessage = ''InvalidFormula'',
                    currentFormula = [''1'', ''+''], lastResult = Num 1, result = Num 1\<rparr>) \<and>
   \<not> isNumber (currentToken (newFormulaEvaluator\<lparr>currentFormula := ['')'']\<rparr>)) \<and>
   \<not> isCellReference sampleEnv (currentToken (newFormulaEvaluator\<lparr>currentFormula := ['')'']\<rparr>)) \<and>
   currentToken (newFormulaEvaluator\<lparr>currentFormula := ['')'']\<rparr>) \<noteq> Some ''('' \<and>
   map_option fst (evaluateFactor (Suc 0) sampleEnv (newFormulaEvaluator\<lparr>currentFormula := ['')'']\<rparr>)) =
     Some (Num 0) \<and>
   getCellValue sampleEnv (Some ''B1'') = (Num 0, ''InvalidCell'') \<and>
   currentToken (newFormulaEvaluator\<lparr>currentFormula := [''5'', ''/'', ''0''], currentTokenIndex := 1\<rparr>) =
     Some ''/'' \<and>
   evaluateFactor 1 sampleEnv
     (nextToken (newFormulaEvaluator\<lparr>currentFormula := [''5'', ''/'', ''0''], currentTokenIndex := 1\<rparr>)) =
     Some (Num 0, newFormulaEvaluator\<lparr>currentFormula := [''5'', ''/'', ''0''], currentTokenIndex := 3\<rparr>) \<and>
   map_option fst (termLoop (Suc 1) sampleEnv (Num 5)
     (newFormulaEvaluator\<lparr>currentFormula := [''5'', ''/'', ''0''], currentTokenIndex := 1\<rparr>)) =
     Some Infinity"
proof -
  let ?f = "[''1'', ''+'', ''2'', ''3'']"
  let ?g = "[''1'', ''+'']"
  let ?c = "newFormulaEvaluator\<lparr>currentFormula := ['')'']\<rparr>"
  let ?d = "newFormulaEvaluator\<lparr>currentFormula := [''5'', ''/'', ''0''], currentTokenIndex := 1\<rparr>"
  let ?d2 = "newFormulaEvaluator\<lparr>currentFormula := [''5'', ''/'', ''0''], currentTokenIndex := 3\<rparr>"
  have ef: "evaluateExpression 15 sampleEnv (startOfCall newFormulaEvaluator ?f) =
     Some (Num 3, \<lparr>currentTokenIndex = 3, errorOccurred = False, errorMessage = '''',
                    currentFormula = ?f, lastResult = Num 0, result = Num 0\<rparr>)"
    by (simp add: eval_nat_numeral token_simps startOfCall_def newFormulaEvaluator_def)
  have eg: "evaluateExpression 9 sampleEnv (startOfCall newFormulaEvaluator ?g) =
     Some (Num 1, \<lparr>currentTokenIndex = 2, errorOccurred = True, errorMessage = ''InvalidFormula'',
                    currentFormula = ?g, lastResult = Num 0, result = Num 0\<rparr>)"
    by (simp add: eval_nat_numeral token_simps startOfCall_def newFormulaEvaluator_def
        sampleEnv_simps)
  have nf: "?f \<noteq> []" "3 * length ?f + 3 \<le> (15::nat)" by simp_all
  have ng: "?g \<noteq> []" "3 * length ?g + 3 \<le> (9::nat)" by simp_all
  note t = erroring_result_value [THEN conjunct2]
  note u = t [THEN conjunct2]
  have a: "evaluate sampleEnv newFormulaEvaluator ?f =
     Some (Num 0, \<lparr>currentTokenIndex = 3, errorOccurred = False, errorMessage = ''InvalidFormula'',
                    currentFormula = ?f, lastResult = Num 3, result = Num 3\<rparr>)"
    using t [THEN conjunct1, rule_format, OF nf ef] by (simp add: sampleEnv_simps)
  have b: "evaluate sampleEnv newFormulaEvaluator ?g =
     Some (Num 1, \<lparr>currentTokenIndex = 2, errorOccurred = True, errorMessage = ''InvalidFormula'',
                    currentFormula = ?g, lastResult = Num 1, result = Num 1\<rparr>)"
    using t [THEN conjunct1, rule_format, OF ng eg] by simp
  have c: "\<not> isNumber (currentToken ?c) \<and> \<not> isCellReference sampleEnv (currentToken ?c) \<and>
      currentToken ?c \<noteq> Some ''(''"
    by (simp add: newFormulaEvaluator_def token_simps sampleEnv_simps)
  have l: "snd (getCellValue sampleEnv (Some ''B1'')) \<noteq> ''''"
    "getCellValue sampleEnv (Some ''B1'') = (fst (getCellValue sampleEnv (Some ''B1'')), ''InvalidCell'')"
    by (simp_all add: getCellValue_def sampleEnv_simps sampleCells_def)
  have h1: "currentToken ?d = Some ''/''"
    by (simp add: newFormulaEvaluator_def token_simps)
  have h2: "evaluateFactor 1 sampleEnv (nextToken ?d) = Some (Num 0, ?d2)"
    by (simp add: newFormulaEvaluator_def token_simps)
  from u [THEN conjunct1, rule_format, OF a] u [THEN conjunct1, rule_format, OF b]
    u [THEN conjunct2, THEN conjunct1, rule_format, OF c, of 0]
    u [THEN conjunct2, THEN conjunct2, THEN conjunct1, rule_format, OF l(1)] l(2)
    u [THEN conjunct2, THEN conjunct2, THEN conjunct2, rule_format, OF h1 h2, of "Num 5"]
    ef eg a b c h1 h2
  show ?thesis
    by (simp del: evaluateFactor.simps termLoop.simps)
qed

subsection \<open>C5: which error is reported\<close>

text \<open>
  Claim C5 says that the first error of the descent is the one reported. It fails for
  \<open>C1 + D1\<close> on the sample sheet: \<open>C1\<close> carries \<open>DivideByZero\<close>, \<open>D1\<close> carries
  \<open>InvalidFormula\<close>, and the error after the call is that of \<open>D1\<close>, the second cell.
\<close>

theorem first_error_counterexample:
  "outcome (evaluate sampleEnv newFormulaEvaluator [''C1'', ''+'', ''D1'']) =
     Some (Num 0, Num 0, ''InvalidFormula'') \<and>
   getError (getCellByLabel sampleEnv (Some ''C1'')) = ''DivideByZero'' \<and>
   getError (getCellByLabel sampleEnv (Some ''D1'')) = ''InvalidFormula'' \<and>
   ''InvalidFormula'' \<noteq> ''DivideByZero''"
  by (simp add: run_simps sampleEnv_simps sampleCells_def getCellValue_def isNumber_def isNaN_def
      number_defs)

text \<open>
  Claim C5 as amended. The descent never clears the error flag. Each of its four
  steps that fail writes its own message over whatever message the instance holds at
  that moment: the lookup of a cell that gives an error, the parenthesis that is not
  closed, the token that is no factor, and the division by zero. The check for
  tokens left over at the end of \<open>evaluate\<close> is the only one that leaves an earlier
  error in place: when the descent ends with the flag set, the error after the call is
  the message the descent ended with. So for a formula \<open>a + b\<close> of two cell references
  whose cells both carry an error that is handed on, the error after the call is that
  of the second cell \<open>b\<close>.
\<close>

theorem last_error_reported:
  "(evaluateExpression n env s = Some (v, s') \<longrightarrow> errorOccurred s \<longrightarrow> errorOccurred s') \<and>
   (\<not> isNumber (currentToken s) \<and> isCellReference env (currentToken s) \<and>
    snd (getCellValue env (currentToken s)) \<noteq> '''' \<longrightarrow>
      evaluateFactor (Suc n) env s =
        Some (fst (getCellValue env (currentToken s)),
              nextToken (s\<lparr>errorMessage := snd (getCellValue env (currentToken s)),
                            errorOccurred := True\<rparr>))) \<and>
   (currentToken s = Some ''('' \<and> \<not> isCellReference env (Some ''('') \<and>
    evaluateExpression n env (nextToken s) = Some (v1, s1) \<and> currentToken s1 \<noteq> Some '')'' \<longrightarrow>
      evaluateFactor (Suc n) env s =
        Some (v1, s1\<lparr>errorOccurred := True, errorMessage := invalidFormula env\<rparr>)) \<and>
   (\<not> isNumber (currentToken s) \<and> \<not> isCellReference env (currentToken s) \<and>
    currentToken s \<noteq> Some ''('' \<longrightarrow>
      evaluateFactor (Suc n) env s =
        Some (Num 0, s\<lparr>errorMessage := invalidFormula env, errorOccurred := True\<rparr>)) \<and>
   (currentToken s = Some ''/'' \<and> evaluateFactor n env (nextToken s) = Some (Num 0, s2) \<longrightarrow>
      termLoop (Suc n) env v0 s =
        Some (Infinity, s2\<lparr>errorMessage := divideByZero env, errorOccurred := True,
                            lastResult := Infinity\<rparr>)) \<and>
   (f \<noteq> [] \<and> 3 * length f + 3 \<le> fuel \<and>
    evaluateExpression fuel env (startOfCall st f) = Some (v1, s1) \<and> errorOccurred s1 \<longrightarrow>
      outcome (evaluate env st f) = Some (v1, v1, errorMessage s1)) \<and>
   (\<not> isNumber (Some a) \<and> \<not> isNumber (Some b) \<and>
    isValidCellLabel env (Some a) \<and> isValidCellLabel env (Some b) \<and>
    getError (getCellByLabel env (Some a)) \<noteq> '''' \<and>
    getError (getCellByLabel env (Some a)) \<noteq> emptyFormula env \<and>
    getError (getCellByLabel env (Some b)) \<noteq> '''' \<and>
    getError (getCellByLabel env (Some b)) \<noteq> emptyFormula env \<longrightarrow>
    outcome (evaluate env st [a, ''+'', b]) =
      Some (Num 0, Num 0, getError (getCellByLabel env (Some b))))"
proof (intro conjI impI)
  assume "evaluateExpression n env s = Some (v, s')" "errorOccurred s"
  then show "errorOccurred s'"
    using descent(1) [of n env s v s'] by (simp add: descends_def)
next
  assume "\<not> isNumber (currentToken s) \<and> isCellReference env (currentToken s) \<and>
    snd (getCellValue env (currentToken s)) \<noteq> ''''"
  then show "evaluateFactor (Suc n) env s =
        Some (fst (getCellValue env (currentToken s)),
              nextToken (s\<lparr>errorMessage := snd (getCellValue env (currentToken s)),
                            errorOccurred := True\<rparr>))"
    by (cases "getCellValue env (currentToken s)") (simp add: Let_def)
next
  assume a: "currentToken s = Some ''('' \<and> \<not> isCellReference env (Some ''('') \<and>
    evaluateExpression n env (nextToken s) = Some (v1, s1) \<and> currentToken s1 \<noteq> Some '')''"
  have "\<not> isNumber (Some ''('')"
    by (simp add: isNumber_def isNaN_def ToNumber_punctuation)
  with a show "evaluateFactor (Suc n) env s =
        Some (v1, s1\<lparr>errorOccurred := True, errorMessage := invalidFormula env\<rparr>)"
    by (simp add: isCurrentToken_def)
next
  assume "\<not> isNumber (currentToken s) \<and> \<not> isCellReference env (currentToken s) \<and>
    currentToken s \<noteq> Some ''(''"
  then show "evaluateFactor (Suc n) env s =
        Some (Num 0, s\<lparr>errorMessage := invalidFormula env, errorOccurred := True\<rparr>)"
    by simp
next
  assume "currentToken s = Some ''/'' \<and> evaluateFactor n env (nextToken s) = Some (Num 0, s2)"
  then show "termLoop (Suc n) env v0 s =
        Some (Infinity, s2\<lparr>errorMessage := divideByZero env, errorOccurred := True,
                            lastResult := Infinity\<rparr>)"
    by (simp add: Let_def)
next
  assume a: "f \<noteq> [] \<and> 3 * length f + 3 \<le> fuel \<and>
    evaluateExpression fuel env (startOfCall st f) = Some (v1, s1) \<and> errorOccurred s1"
  then have "evaluate env st f =
    (if currentTokenIndex s1 \<noteq> length f \<and> \<not> errorOccurred s1
     then Some (Num 0, s1\<lparr>result := v1, lastResult := v1, errorMessage := invalidFormula env\<rparr>)
     else Some (v1, s1\<lparr>result := v1, lastResult := v1\<rparr>))"
    using evaluate_link [of f fuel env st v1 s1] by simp
  with a show "outcome (evaluate env st f) = Some (v1, v1, errorMessage s1)"
    by (simp add: outcome_def get_result_def get_error_def)
next
  assume "\<not> isNumber (Some a) \<and> \<not> isNumber (Some b) \<and>
    isValidCellLabel env (Some a) \<and> isValidCellLabel env (Some b) \<and>
    getError (getCellByLabel env (Some a)) \<noteq> '''' \<and>
    getError (getCellByLabel env (Some a)) \<noteq> emptyFormula env \<and>
    getError (getCellByLabel env (Some b)) \<noteq> '''' \<and>
    getError (getCellByLabel env (Some b)) \<noteq> emptyFormula env"
  then show "outcome (evaluate env st [a, ''+'', b]) =
      Some (Num 0, Num 0, getError (getCellByLabel env (Some b)))"
    by (simp add: evaluate_def evaluateFuel_def outcome_def get_result_def get_error_def
        eval_nat_numeral ToNumber_punctuation currentToken_def nextToken_def isCurrentToken_def
        isCellReference_def getCellValue_def)
qed

text \<open>
  Claim C5 as amended, each step on an instance that already holds the message
  \<open>Earlier\<close> with the flag set: the descent of \<open>1\<close> keeps the flag; the lookup of
  \<open>D1\<close>, the factor at \<open>)\<close> and the division of \<open>5 / 0\<close> replace the message; in
  \<open>( C1\<close> the missing parenthesis replaces the error of \<open>C1\<close>; in \<open>C1 2\<close> the token
  left over leaves the error of \<open>C1\<close> in place; and \<open>C1 + D1\<close> ends with the error
  of \<open>D1\<close>.
\<close>

theorem last_error_reported_witness:
  "evaluateExpression 3 sampleEnv
     (newFormulaEvaluator\<lparr>currentFormula := [''1''], errorMessage := ''Earlier'', errorOccurred := True\<rparr>) =
     Some (Num 1, newFormulaEvaluator\<lparr>currentFormula := [''1''], errorMessage := ''Earlier'',
                    errorOccurred := True, currentTokenIndex := 1\<rparr>) \<and>
   evaluateFactor (Suc 0) sampleEnv
     (newFormulaEvaluator\<lparr>currentFormula := [''D1''], errorMessage := ''Earlier'', errorOccurred := True\<rparr>) =
     Some (Num 0, newFormulaEvaluator\<lparr>currentFormula := [''D1''], errorMessage := ''InvalidFormula'',
                    errorOccurred := True, currentTokenIndex := 1\<rparr>) \<and>
   evaluateExpression 3 sampleEnv
     (nextToken (newFormulaEvaluator\<lparr>currentFormula := [''('', ''C1'']\<rparr>)) =
     Some (Num 0, newFormulaEvaluator\<lparr>currentFormula := [''('', ''C1''], errorMessage := ''DivideByZero'',
                    errorOccurred := True, currentTokenIndex := 2\<rparr>) \<and>
   evaluateFactor (Suc 3) sampleEnv (newFormulaEvaluator\<lparr>currentFormula := [''('', ''C1'']\<rparr>) =
     Some (Num 0, newFormulaEvaluator\<lparr>currentFormula := [''('', ''C1''], errorMessage := ''InvalidFormula'',
                    errorOccurred := True, currentTokenIndex := 2\<rparr>) \<and>
   evaluateFactor (Suc 0) sampleEnv
     (newFormulaEvaluator\<lparr>currentFormula := ['')''], errorMessage := ''Earlier'', errorOccurred := True\<rparr>) =
     Some (Num 0, newFormulaEvaluator\<lparr>currentFormula := ['')''], errorMessage := ''InvalidFormula'',
                    errorOccurred := True\<rparr>) \<and>
   termLoop (Suc 1) sampleEnv (Num 5)
     (newFormulaEvaluator\<lparr>currentFormula := [''5'', ''/'', ''0''], currentTokenIndex := 1,
        errorMessage := ''Earlier'', errorOccurred := True\<rparr>) =
     Some (Infinity, newFormulaEvaluator\<lparr>currentFormula := [''5'', ''/'', ''0''], currentTokenIndex := 3,
                       errorMessage := ''DivideByZero'', errorOccurred := True, lastResult := Infinity\<rparr>) \<and>
   evaluateExpression 9 sampleEnv (startOfCall newFormulaEvaluator [''C1'', ''2'']) =
     Some (Num 0, newFormulaEvaluator\<lparr>currentFormula := [''C1'', ''2''], errorMessage := ''DivideByZero'',
                    errorOccurred := True, currentTokenIndex := 1\<rparr>) \<and>
   outcome (evaluate sampleEnv newFormulaEvaluator [''C1'', ''2'']) = Some (Num 0, Num 0, ''DivideByZero'') \<and>
   \<not> isNumber (Some ''C1'') \<and> \<not> isNumber (Some ''D1'') \<and>
   isValidCellLabel sampleEnv (Some ''C1'') \<and> isValidCellLabel sampleEnv (Some ''D1'') \<and>
   getError (getCellByLabel sampleEnv (Some ''C1'')) = ''DivideByZero'' \<and>
   getError (getCellByLabel sampleEnv (Some ''D1'')) = ''InvalidFormula'' \<and>
   outcome (evaluate sampleEnv newFormulaEvaluator [''C1'', ''+'', ''D1'']) =
     Some (Num 0, Num 0, ''InvalidFormula'')"
proof -
  let ?one = "newFormulaEvaluator\<lparr>currentFormula := [''1''], errorMessage := ''Earlier'', errorOccurred := True\<rparr>"
  let ?one' = "newFormulaEvaluator\<lparr>currentFormula := [''1''], errorMessage := ''Earlier'',
      errorOccurred := True, currentTokenIndex := 1\<rparr>"
  let ?cell = "newFormulaEvaluator\<lparr>currentFormula := [''D1''], errorMessage := ''Earlier'', errorOccurred := True\<rparr>"
  let ?par = "newFormulaEvaluator\<lparr>currentFormula := [''('', ''C1'']\<rparr>"
  let ?par1 = "newFormulaEvaluator\<lparr>currentFormula := [''('', ''C1''], errorMessage := ''DivideByZero'',
      errorOccurred := True, currentTokenIndex := 2\<rparr>"
  let ?bad = "newFormulaEvaluator\<lparr>currentFormula := ['')''], errorMessage := ''Earlier'', errorOccurred := True\<rparr>"
  let ?div = "newFormulaEvaluator\<lparr>currentFormula := [''5'', ''/'', ''0''], currentTokenIndex := 1,
      errorMessage := ''Earlier'', errorOccurred := True\<rparr>"
  let ?div2 = "newFormulaEvaluator\<lparr>currentFormula := [''5'', ''/'', ''0''], currentTokenIndex := 3,
      errorMessage := ''Earlier'', errorOccurred := True\<rparr>"
  let ?left = "newFormulaEvaluator\<lparr>currentFormula := [''C1'', ''2''], errorMessage := ''DivideByZero'',
      errorOccurred := True, currentTokenIndex := 1\<rparr>"
  have nan: "\<not> isNumber (Some ''C1'')" "\<not> isNumber (Some ''D1'')"
    by (simp_all add: isNumber_def isNaN_def number_defs)
  have cells: "isValidCellLabel sampleEnv (Some ''C1'')" "isValidCellLabel sampleEnv (Some ''D1'')"
    "getError (getCellByLabel sampleEnv (Some ''C1'')) = ''DivideByZero''"
    "getError (getCellByLabel sampleEnv (Some ''D1'')) = ''InvalidFormula''"
    by (simp_all add: sampleEnv_simps sampleCells_def)
  have look: "getCellValue sampleEnv (Some ''C1'') = (Num 0, ''DivideByZero'')"
    "getCellValue sampleEnv (Some ''D1'') = (Num 0, ''InvalidFormula'')"
    by (simp_all add: getCellValue_def sampleEnv_simps sampleCells_def)
  have e: "evaluateExpression 3 sampleEnv ?one = Some (Num 1, ?one')"
    by (simp add: eval_nat_numeral token_simps newFormulaEvaluator_def)
  have f: "errorOccurred ?one" by simp
  have c: "\<not> isNumber (currentToken ?cell) \<and> isCellReference sampleEnv (currentToken ?cell) \<and>
      snd (getCellValue sampleEnv (currentToken ?cell)) \<noteq> ''''"
    by (simp add: newFormulaEvaluator_def currentToken_def nan look sampleEnv_simps)
  have p: "currentToken ?par = Some ''('' \<and> \<not> isCellReference sampleEnv (Some ''('') \<and>
      evaluateExpression 3 sampleEnv (nextToken ?par) = Some (Num 0, ?par1) \<and>
      currentToken ?par1 \<noteq> Some '')''"
    by (simp add: eval_nat_numeral newFormulaEvaluator_def currentToken_def nextToken_def nan look
        sampleEnv_simps)
  have b: "\<not> isNumber (currentToken ?bad) \<and> \<not> isCellReference sampleEnv (currentToken ?bad) \<and>
      currentToken ?bad \<noteq> Some ''(''"
    by (simp add: newFormulaEvaluator_def token_simps sampleEnv_simps)
  have d: "currentToken ?div = Some ''/'' \<and> evaluateFactor 1 sampleEnv (nextToken ?div) = Some (Num 0, ?div2)"
    by (simp add: newFormulaEvaluator_def token_simps)
  have l: "[''C1'', ''2''] \<noteq> [] \<and> 3 * length [''C1'', ''2''] + 3 \<le> (9::nat) \<and>
      evaluateExpression 9 sampleEnv (startOfCall newFormulaEvaluator [''C1'', ''2'']) = Some (Num 0, ?left) \<and>
      errorOccurred ?left"
    by (simp add: eval_nat_numeral newFormulaEvaluator_def startOfCall_def currentToken_def
        nextToken_def nan look sampleEnv_simps)
  have ab: "\<not> isNumber (Some ''C1'') \<and> \<not> isNumber (Some ''D1'') \<and>
    isValidCellLabel sampleEnv (Some ''C1'') \<and> isValidCellLabel sampleEnv (Some ''D1'') \<and>
    getError (getCellByLabel sampleEnv (Some ''C1'')) \<noteq> '''' \<and>
    getError (getCellByLabel sampleEnv (Some ''C1'')) \<noteq> emptyFormula sampleEnv \<and>
    getError (getCellByLabel sampleEnv (Some ''D1'')) \<noteq> '''' \<and>
    getError (getCellByLabel sampleEnv (Some ''D1'')) \<noteq> emptyFormula sampleEnv"
    using nan cells by (simp add: sampleEnv_simps)
  note t = last_error_reported [THEN conjunct2]
  note u = t [THEN conjunct2, THEN conjunct2, THEN conjunct2]
  from last_error_reported [THEN conjunct1, rule_format, OF e f]
    t [THEN conjunct1, rule_format, OF c, of 0]
    t [THEN conjunct2, THEN conjunct1, rule_format, OF p]
    t [THEN conjunct2, THEN conjunct2, THEN conjunct1, rule_format, OF b, of 0]
    u [THEN conjunct1, rule_format, OF d, of "Num 5"]
    u [THEN conjunct2, THEN conjunct1, rule_format, OF l]
    u [THEN conjunct2, THEN conjunct2, rule_format, OF ab, of newFormulaEvaluator]
    e p l nan cells
  show ?thesis
    by (simp add: newFormulaEvaluator_def currentToken_def nextToken_def look sampleEnv_simps
        del: evaluateFactor.simps termLoop.simps evaluateExpression.simps)
qed

subsection \<open>C6: tokens left over\<close>

text \<open>
  Claim C6 says that \<open>evaluate\<close> returns 3 for the tokens \<open>1 + 2 3\<close>. The number that
  the call returns is 0: the check for tokens left over ends in \<open>return 0\<close>.
\<close>

theorem trailing_token_returned_counterexample:
  "returned (evaluate sampleEnv newFormulaEvaluator [''1'', ''+'', ''2'', ''3'']) \<noteq> Some (Num 3)"
  by (simp add: run_simps)

text \<open>
  Claim C6 as amended. For the tokens \<open>1 + 2 3\<close> the prefix \<open>1 + 2\<close> is evaluated and
  its value 3 is what the \<open>result\<close> getter holds afterwards, the error is
  \<open>invalidFormula\<close>, and the call itself returns 0.
\<close>

theorem trailing_token_outcome:
  "outcome (evaluate env st [''1'', ''+'', ''2'', ''3'']) = Some (Num 0, Num 3, invalidFormula env)"
  by (simp add: run_simps)

subsection \<open>C7: a parenthesis that is not closed\<close>

text \<open>
  Claim C7. For the tokens \<open>( 1 + 2\<close> the call returns 3, the \<open>result\<close> getter holds 3
  and the error is \<open>invalidFormula\<close>: the value of the inner expression is kept. As in
  C1, the label test must reject the token \<open>(\<close>.
\<close>

theorem unmatched_parenthesis:
  "\<not> isValidCellLabel env (Some ''('') \<Longrightarrow>
   outcome (evaluate env st [''('', ''1'', ''+'', ''2'']) = Some (Num 3, Num 3, invalidFormula env)"
  by (simp add: run_simps isCellReference_def)

text \<open>Claim C7 on the sample sheet and a fresh instance.\<close>

theorem unmatched_parenthesis_witness:
  "\<not> isValidCellLabel sampleEnv (Some ''('') \<and>
   outcome (evaluate sampleEnv newFormulaEvaluator [''('', ''1'', ''+'', ''2'']) =
     Some (Num 3, Num 3, ''InvalidFormula'')"
proof -
  have h: "\<not> isValidCellLabel sampleEnv (Some ''('')"
    by (simp add: sampleEnv_simps)
  from unmatched_parenthesis [OF h, of newFormulaEvaluator] h
  show ?thesis by (simp add: sampleEnv_simps)
qed

subsection \<open>C8: termination\<close>

text \<open>
  Claim C8 ends with: the factor that fails without moving the cursor returns to a
  loop that then stops. It does not when the token in the place of the factor is an
  operator. For the tokens \<open>* 2\<close> the factor fails at \<open>*\<close> and leaves the cursor at 0;
  the loop of the term then takes this \<open>*\<close> as its operator, reads \<open>2\<close>, and only
  stops with the cursor at 2.
\<close>

theorem factor_error_loop_counterexample:
  "evaluateFactor 1 sampleEnv (newFormulaEvaluator\<lparr>currentFormula := [''*'', ''2'']\<rparr>) =
     Some (Num 0, newFormulaEvaluator\<lparr>currentFormula := [''*'', ''2''],
                    errorMessage := ''InvalidFormula'', errorOccurred := True\<rparr>) \<and>
   termLoop 2 sampleEnv (Num 0)
     (newFormulaEvaluator\<lparr>currentFormula := [''*'', ''2''],
        errorMessage := ''InvalidFormula'', errorOccurred := True\<rparr>) =
     Some (Num 0, newFormulaEvaluator\<lparr>currentFormula := [''*'', ''2''],
                    errorMessage := ''InvalidFormula'', errorOccurred := True, currentTokenIndex := 2\<rparr>)"
  by (simp add: eval_nat_numeral token_simps newFormulaEvaluator_def sampleEnv_simps)

text \<open>
  Claim C8 as amended. For every formula, store and instance, the run of \<open>evaluate\<close>
  ends with a value and an instance, the same whatever fuel beyond three units for
  each token and three more the descent is given. It takes at most five steps for
  each token and six more, a step being a call of one of the three methods of the
  descent or a test of a loop condition. Its calls are nested at most three deep for
  each token \<open>(\<close> of the formula and four more, and exactly that deep on \<open>k\<close> tokens
  \<open>(\<close> followed by \<open>1\<close> (when the label test rejects \<open>(\<close>): the depth grows with the
  nesting and nothing in the code limits it, so the run is free of exceptions only on
  a host whose call stack holds that many frames, not for every formula. Every
  iteration of the two loops moves the cursor forward. The factor that fails returns 0
  and leaves the cursor where it is; a loop stops when the token under the cursor is
  not one of its two operators, and otherwise takes that token as its operator. (The
  lookup and the label test of the store are total functions here.)
\<close>

theorem evaluate_terminates:
  "(\<exists>v s'. evaluate env st f = Some (v, s')) \<and>
   (\<forall>fuel. 3 * length f + 3 \<le> fuel \<longrightarrow> evaluateFuel fuel env st f = evaluate env st f) \<and>
   T_evaluate env st f \<le> 5 * length f + 6 \<and>
   D_evaluate env st f \<le> 3 * length (filter (\<lambda>t. t = ''('') f) + 4 \<and>
   (\<not> isValidCellLabel env (Some ''('') \<longrightarrow>
      D_evaluate env st (replicate k ''('' @ [''1'']) = 3 * k + 4) \<and>
   ((currentToken s = Some ''+'' \<or> currentToken s = Some ''-'') \<longrightarrow>
      expressionLoop n env v0 s = Some (v, s') \<longrightarrow> currentTokenIndex s < currentTokenIndex s') \<and>
   ((currentToken s = Some ''*'' \<or> currentToken s = Some ''/'') \<longrightarrow>
      termLoop n env v0 s = Some (v, s') \<longrightarrow> currentTokenIndex s < currentTokenIndex s') \<and>
   (\<not> isNumber (currentToken s) \<and> \<not> isCellReference env (currentToken s) \<and>
    currentToken s \<noteq> Some ''('' \<longrightarrow>
      evaluateFactor (Suc n) env s =
        Some (Num 0, s\<lparr>errorMessage := invalidFormula env, errorOccurred := True\<rparr>)) \<and>
   (currentToken s \<noteq> Some ''+'' \<and> currentToken s \<noteq> Some ''-'' \<longrightarrow>
      expressionLoop (Suc n) env v0 s = Some (v0, s)) \<and>
   (currentToken s \<noteq> Some ''*'' \<and> currentToken s \<noteq> Some ''/'' \<longrightarrow>
      termLoop (Suc n) env v0 s = Some (v0, s))"
  using evaluate_returns [of env st f] evaluateFuel_enough [of f _ env st]
    T_evaluate_bound [of env st f] D_evaluate_bound [of env st f]
    nested_depth_evaluate [of env st k]
    expressionLoop_advances [of s n env v0 v s'] termLoop_advances [of s n env v0 v s']
  by simp

text \<open>
  Claim C8 as amended, on \<open>1 + 2\<close> with fuel 100, on the depth of \<open>( ( 1\<close>, on one
  iteration of each loop, and on a factor that fails at the token \<open>)\<close>, where both
  loops stop.
\<close>

theorem evaluate_terminates_witness:
  "3 * length [''1'', ''+'', ''2''] + 3 \<le> (100::nat) \<and>
   evaluateFuel 100 sampleEnv newFormulaEvaluator [''1'', ''+'', ''2''] =
     evaluate sampleEnv newFormulaEvaluator [''1'', ''+'', ''2''] \<and>
   \<not> isValidCellLabel sampleEnv (Some ''('') \<and>
   D_evaluate sampleEnv newFormulaEvaluator [''('', ''('', ''1''] = 10 \<and>
   currentToken (newFormulaEvaluator\<lparr>currentFormula := [''1'', ''+'', ''2''], currentTokenIndex := 1\<rparr>) =
     Some ''+'' \<and>
   expressionLoop 4 sampleEnv (Num 1)
     (newFormulaEvaluator\<lparr>currentFormula := [''1'', ''+'', ''2''], currentTokenIndex := 1\<rparr>) =
     Some (Num 3, newFormulaEvaluator\<lparr>currentFormula := [''1'', ''+'', ''2''], currentTokenIndex := 3\<rparr>) \<and>
   currentToken (newFormulaEvaluator\<lparr>currentFormula := [''1'', ''*'', ''2''], currentTokenIndex := 1\<rparr>) =
     Some ''*'' \<and>
   termLoop 3 sampleEnv (Num 1)
     (newFormulaEvaluator\<lparr>currentFormula := [''1'', ''*'', ''2''], currentTokenIndex := 1\<rparr>) =
     Some (Num 2, newFormulaEvaluator\<lparr>currentFormula := [''1'', ''*'', ''2''], currentTokenIndex := 3\<rparr>) \<and>
   currentTokenIndex (newFormulaEvaluator\<lparr>currentFormula := [''1'', ''+'', ''2''], currentTokenIndex := 1\<rparr>)
     < currentTokenIndex (newFormulaEvaluator\<lparr>currentFormula := [''1'', ''+'', ''2''], currentTokenIndex := 3\<rparr>) \<and>
   \<not> isNumber (currentToken (newFormulaEvaluator\<lparr>currentFormula := ['')'']\<rparr>)) \<and>
   \<not> isCellReference sampleEnv (currentToken (newFormulaEvaluator\<lparr>currentFormula := ['')'']\<rparr>)) \<and>
   currentToken (newFormulaEvaluator\<lparr>currentFormula := ['')'']\<rparr>) \<noteq> Some ''('' \<and>
   evaluateFactor (Suc 0) sampleEnv (newFormulaEvaluator\<lparr>currentFormula := ['')'']\<rparr>) =
     Some (Num 0, newFormulaEvaluator\<lparr>currentFormula := ['')''],
                    errorMessage := invalidFormula sampleEnv, errorOccurred := True\<rparr>) \<and>
   expressionLoop (Suc 0) sampleEnv (Num 0) (newFormulaEvaluator\<lparr>currentFormula := ['')'']\<rparr>) =
     Some (Num 0, newFormulaEvaluator\<lparr>currentFormula := ['')'']\<rparr>) \<and>
   termLoop (Suc 0) sampleEnv (Num 0) (newFormulaEvaluator\<lparr>currentFormula := ['')'']\<rparr>) =
     Some (Num 0, newFormulaEvaluator\<lparr>currentFormula := ['')'']\<rparr>)"
proof -
  let ?f = "[''1'', ''+'', ''2'']"
  let ?p = "newFormulaEvaluator\<lparr>currentFormula := [''1'', ''+'', ''2''], currentTokenIndex := 1\<rparr>"
  let ?p' = "newFormulaEvaluator\<lparr>currentFormula := [''1'', ''+'', ''2''], currentTokenIndex := 3\<rparr>"
  let ?m = "newFormulaEvaluator\<lparr>currentFormula := [''1'', ''*'', ''2''], currentTokenIndex := 1\<rparr>"
  let ?m' = "newFormulaEvaluator\<lparr>currentFormula := [''1'', ''*'', ''2''], currentTokenIndex := 3\<rparr>"
  let ?c = "newFormulaEvaluator\<lparr>currentFormula := ['')'']\<rparr>"
  have fuel: "3 * length ?f + 3 \<le> (100::nat)" by simp
  have h: "\<not> isValidCellLabel sampleEnv (Some ''('')"
    by (simp add: sampleEnv_simps)
  have two: "replicate 2 ''('' @ [''1''] = [''('', ''('', ''1'']"
    by (simp add: eval_nat_numeral)
  have p: "currentToken ?p = Some ''+'' \<or> currentToken ?p = Some ''-''"
    by (simp add: newFormulaEvaluator_def currentToken_def)
  have pl: "expressionLoop 4 sampleEnv (Num 1) ?p = Some (Num 3, ?p')"
    by (simp add: eval_nat_numeral token_simps newFormulaEvaluator_def)
  have m: "currentToken ?m = Some ''*'' \<or> currentToken ?m = Some ''/''"
    by (simp add: newFormulaEvaluator_def currentToken_def)
  have ml: "termLoop 3 sampleEnv (Num 1) ?m = Some (Num 2, ?m')"
    by (simp add: eval_nat_numeral token_simps newFormulaEvaluator_def)
  have c: "\<not> isNumber (currentToken ?c) \<and> \<not> isCellReference sampleEnv (currentToken ?c) \<and>
      currentToken ?c \<noteq> Some ''(''"
    by (simp add: newFormulaEvaluator_def token_simps sampleEnv_simps)
  have ce: "currentToken ?c \<noteq> Some ''+'' \<and> currentToken ?c \<noteq> Some ''-''"
    by (simp add: newFormulaEvaluator_def currentToken_def)
  have ct: "currentToken ?c \<noteq> Some ''*'' \<and> currentToken ?c \<noteq> Some ''/''"
    by (simp add: newFormulaEvaluator_def currentToken_def)
  note t = evaluate_terminates [THEN conjunct2]
  note w = t [THEN conjunct2, THEN conjunct2, THEN conjunct2]
  note u = w [THEN conjunct2, THEN conjunct2, THEN conjunct2]
  have d: "D_evaluate sampleEnv newFormulaEvaluator [''('', ''('', ''1''] = 10"
    using w [THEN conjunct1, rule_format, OF h, of newFormulaEvaluator 2] by (simp add: two)
  from t [THEN conjunct1, rule_format, OF fuel]
    w [THEN conjunct2, THEN conjunct1, rule_format, OF p pl]
    w [THEN conjunct2, THEN conjunct2, THEN conjunct1, rule_format, OF m ml]
    u [THEN conjunct1, rule_format, OF c, of 0]
    u [THEN conjunct2, THEN conjunct1, rule_format, OF ce, of 0 sampleEnv "Num 0"]
    u [THEN conjunct2, THEN conjunct2, rule_format, OF ct, of 0 sampleEnv "Num 0"]
    fuel h d p pl m ml c
  show ?thesis
    by (simp del: evaluateFactor.simps expressionLoop.simps termLoop.simps
        add: newFormulaEvaluator_def currentToken_def)
qed

subsection \<open>C9: one instance used for several calls\<close>

text \<open>
  Claim C9 asks that what a call shows depends on its formula and the store only. The
  empty formula breaks it: \<open>evaluate\<close> returns before it assigns the field \<open>_result\<close>, so
  the \<open>result\<close> getter still holds the number of the call before. After \<open>5\<close> and then
  the empty formula on one instance the getter holds 5; on a fresh instance the empty
  formula leaves it at 0. (For a formula that is not empty the claim holds, see
  \<open>evaluate_sameCall\<close>, and a formula evaluated twice in a row shows the same both
  times, see \<open>evaluate_twice\<close>.)
\<close>

theorem stale_result_after_empty_formula:
  "outcome (thenEvaluate env (evaluate env newFormulaEvaluator [''5'']) []) =
     Some (Num 0, Num 5, emptyFormula env) \<and>
   outcome (evaluate env newFormulaEvaluator []) = Some (Num 0, Num 0, emptyFormula env)"
  by (simp add: run_simps newFormulaEvaluator_def)

subsection \<open>C10: the empty string as a token\<close>

text \<open>
  Claim C10. The empty string converts to 0, so it counts as a number: a factor at
  the token \<open>''''\<close> is 0, moves the cursor on and records no error, and the formula of
  this one token gives 0 with the empty error.
\<close>

theorem empty_string_token_is_number:
  "isNumber (Some '''') \<and> ToNumber (Some '''') = Num 0 \<and>
   (currentToken s = Some '''' \<longrightarrow> evaluateFactor (Suc n) env s = Some (Num 0, nextToken s)) \<and>
   outcome (evaluate env st ['''']) = Some (Num 0, Num 0, '''')"
  by (simp add: run_simps)

text \<open>Claim C10 on the instance that has the one token \<open>''''\<close> as its formula.\<close>

theorem empty_string_token_is_number_witness:
  "currentToken (newFormulaEvaluator\<lparr>currentFormula := ['''']\<rparr>) = Some '''' \<and>
   evaluateFactor (Suc 0) sampleEnv (newFormulaEvaluator\<lparr>currentFormula := ['''']\<rparr>) =
     Some (Num 0, newFormulaEvaluator\<lparr>currentFormula := [''''], currentTokenIndex := 1\<rparr>)"
proof -
  have h: "currentToken (newFormulaEvaluator\<lparr>currentFormula := ['''']\<rparr>) = Some ''''"
    by (simp add: newFormulaEvaluator_def currentToken_def)
  from empty_string_token_is_number [THEN conjunct2, THEN conjunct2, THEN conjunct1, rule_format,
      OF h, of 0 sampleEnv] h
  show ?thesis by (simp add: newFormulaEvaluator_def nextToken_def del: evaluateFactor.simps)
qed

end
